theory Spec2Isabelle
  imports Main "HOL-Library.Multiset" "HOL-Library.Char_ord" "HOL-Library.List_Lexorder"
begin

section \<open>JavaScript values, objects and promises\<close>

text \<open>
  The records of both collections are plain JavaScript objects. The field list of
  \<^verbatim>\<open>HealthReport\<close> and \<^verbatim>\<open>UserProfile\<close> lives in \<^verbatim>\<open>types.ts\<close>, which the
  services never inspect: they copy objects with the spread operator and read single
  properties. An object is therefore a finite map from property names to values, and the
  values are the scalars the services store. Numbers are the integers (timestamps are
  millisecond counts); \<^verbatim>\<open>NaN\<close>, fractions and nested objects are outside the model.
\<close>

datatype jsval = Undefined | Null | Bool bool | Num int | Str string

type_synonym obj = "string \<rightharpoonup> jsval"

text \<open>\<^verbatim>\<open>o.f\<close>: reading a property that the object does not have gives \<^verbatim>\<open>undefined\<close>.\<close>

definition js_prop :: "obj \<Rightarrow> string \<Rightarrow> jsval" where
  "js_prop ob f = (case ob f of None \<Rightarrow> Undefined | Some v \<Rightarrow> v)"

text \<open>\<^verbatim>\<open>{ ...a, ...b }\<close>: the own properties of \<^verbatim>\<open>a\<close>, overwritten by those of \<^verbatim>\<open>b\<close>.
  A property of \<^verbatim>\<open>b\<close> whose value is \<^verbatim>\<open>undefined\<close> is still an own property and wins.\<close>

definition spread :: "obj \<Rightarrow> obj \<Rightarrow> obj" where
  "spread a b = a ++ b"

text \<open>\<^verbatim>\<open>new Error(msg)\<close> as thrown by the services, and the \<^verbatim>\<open>DOMException\<close> (by name) that
  an IndexedDB request carries in \<^verbatim>\<open>req.error\<close>.\<close>

datatype error = Error string | DOMException string

text \<open>The settled state of a promise. \<^verbatim>\<open>Pending\<close> is a promise on which neither \<^verbatim>\<open>resolve\<close>
  nor \<^verbatim>\<open>reject\<close> is ever called: an \<^verbatim>\<open>await\<close> on it never resumes.\<close>

datatype 'a promise = Resolved 'a | Rejected error | Pending

section \<open>The IndexedDB database\<close>

text \<open>
  \<^verbatim>\<open>openDB\<close> creates two object stores with in-line keys: \<^verbatim>\<open>users\<close> with key path
  \<^verbatim>\<open>_id\<close> and a unique index on \<^verbatim>\<open>email\<close>, and \<^verbatim>\<open>reports\<close> with key path \<^verbatim>\<open>id\<close> and
  non-unique indexes only. An object store is the list of its records in ascending order
  of primary key, which is the order in which \<^verbatim>\<open>getAll\<close> delivers them.
  The engine may fail outside the program's control: \<^verbatim>\<open>fault\<close> says whether opening the
  database, a read request or a write request raises an error event.
\<close>

datatype fault = No_fault | Open_fails | Read_fails | Write_fails

record idb =
  fault :: fault
  STORE_USERS :: "obj list"
  STORE_REPORTS :: "obj list"

text \<open>A value is a valid key when it is a number or a string; numbers sort before strings,
  strings by code unit.\<close>

fun valid_key :: "jsval \<Rightarrow> bool" where
  "valid_key (Num n) = True"
| "valid_key (Str s) = True"
| "valid_key v = False"

fun key_less :: "jsval \<Rightarrow> jsval \<Rightarrow> bool" where
  "key_less (Num a) (Num b) = (a < b)"
| "key_less (Num a) (Str b) = True"
| "key_less (Str a) (Str b) = (a < b)"
| "key_less u v = False"

text \<open>\<^verbatim>\<open>store.get(key)\<close>: the record stored under the key, \<^verbatim>\<open>undefined\<close> (here \<open>None\<close>)
  when there is none.\<close>

definition store_get :: "string \<Rightarrow> jsval \<Rightarrow> obj list \<Rightarrow> obj option" where
  "store_get keyPath k rs = find (\<lambda>r. js_prop r keyPath = k) rs"

text \<open>\<^verbatim>\<open>index.get(key)\<close> and \<^verbatim>\<open>index.getAll(key)\<close>: the first record, and all records, whose
  indexed property equals the key; among equal index keys the order is that of the
  primary keys.\<close>

definition index_get :: "string \<Rightarrow> jsval \<Rightarrow> obj list \<Rightarrow> obj option" where
  "index_get ix k rs = find (\<lambda>r. js_prop r ix = k) rs"

definition index_getAll :: "string \<Rightarrow> jsval \<Rightarrow> obj list \<Rightarrow> obj list" where
  "index_getAll ix k rs = filter (\<lambda>r. js_prop r ix = k) rs"

text \<open>Writing a record under its in-line key: it replaces the record with an equal key or
  is placed at its position in key order.\<close>

fun store_insert :: "string \<Rightarrow> obj \<Rightarrow> obj list \<Rightarrow> obj list" where
  "store_insert keyPath v [] = [v]"
| "store_insert keyPath v (r # rs) =
     (if js_prop v keyPath = js_prop r keyPath then v # rs
      else if key_less (js_prop v keyPath) (js_prop r keyPath) then v # r # rs
      else r # store_insert keyPath v rs)"

text \<open>A unique index refuses a record whose index key is already held by a record with
  another primary key. A record whose indexed property is not a valid key is not indexed.\<close>

definition unique_conflict :: "string \<Rightarrow> string \<Rightarrow> obj \<Rightarrow> obj list \<Rightarrow> bool" where
  "unique_conflict keyPath ix v rs =
     (valid_key (js_prop v ix) \<and>
      list_ex (\<lambda>r. js_prop r keyPath \<noteq> js_prop v keyPath \<and> js_prop r ix = js_prop v ix) rs)"

text \<open>
  The outcome of \<^verbatim>\<open>store.put(v)\<close> and \<^verbatim>\<open>store.add(v)\<close>. A value without a valid key at the
  key path makes the call itself throw \<^verbatim>\<open>DataError\<close>; a constraint violation or an engine
  failure arrives later as the request's error event, and the store is not changed.
\<close>

datatype put_outcome = Stored "obj list" | Throws error | Request_error error

definition store_put :: "string \<Rightarrow> string list \<Rightarrow> fault \<Rightarrow> obj \<Rightarrow> obj list \<Rightarrow> put_outcome" where
  "store_put keyPath uniq flt v rs =
     (if \<not> valid_key (js_prop v keyPath) then Throws (DOMException ''DataError'')
      else if flt = Write_fails then Request_error (DOMException ''UnknownError'')
      else if list_ex (\<lambda>ix. unique_conflict keyPath ix v rs) uniq
        then Request_error (DOMException ''ConstraintError'')
      else Stored (store_insert keyPath v rs))"

definition store_add :: "string \<Rightarrow> string list \<Rightarrow> fault \<Rightarrow> obj \<Rightarrow> obj list \<Rightarrow> put_outcome" where
  "store_add keyPath uniq flt v rs =
     (if \<not> valid_key (js_prop v keyPath) then Throws (DOMException ''DataError'')
      else if flt = Write_fails then Request_error (DOMException ''UnknownError'')
      else if store_get keyPath (js_prop v keyPath) rs \<noteq> None
        then Request_error (DOMException ''ConstraintError'')
      else if list_ex (\<lambda>ix. unique_conflict keyPath ix v rs) uniq
        then Request_error (DOMException ''ConstraintError'')
      else Stored (store_insert keyPath v rs))"

text \<open>\<^verbatim>\<open>openDB\<close>: rejects with \<^verbatim>\<open>Error("Failed to open database")\<close> on the open request's
  error event, resolves with the connection otherwise.\<close>

definition openDB :: "idb \<Rightarrow> error + unit" where
  "openDB env = (if fault env = Open_fails then Inl (Error ''Failed to open database'') else Inr ())"

text \<open>The invariant of an object store: every record has a valid key and the keys ascend
  strictly. For \<^verbatim>\<open>users\<close> the unique index adds that no two records share an email key.\<close>

definition wf_store :: "string \<Rightarrow> obj list \<Rightarrow> bool" where
  "wf_store keyPath rs =
     (list_all (\<lambda>r. valid_key (js_prop r keyPath)) rs \<and>
      sorted_wrt key_less (map (\<lambda>r. js_prop r keyPath) rs))"

definition unique_index :: "string \<Rightarrow> obj list \<Rightarrow> bool" where
  "unique_index ix rs = distinct (filter valid_key (map (\<lambda>r. js_prop r ix) rs))"

text \<open>The invariant of the whole database.\<close>

definition wf_idb :: "idb \<Rightarrow> bool" where
  "wf_idb env =
     (wf_store ''_id'' (STORE_USERS env) \<and> unique_index ''email'' (STORE_USERS env) \<and>
      wf_store ''id'' (STORE_REPORTS env))"

section \<open>The database service\<close>

text \<open>
  \<^verbatim>\<open>updateReportInDb(reportId, updates)\<close>. The connection is awaited, so a failed open
  rejects. Inside the promise: \<^verbatim>\<open>get\<close>, reject with "Report not found" on a missing
  record, else \<^verbatim>\<open>put\<close> of \<^verbatim>\<open>{ ...data, ...updates }\<close>. A \<^verbatim>\<open>put\<close> that throws does so inside
  the success callback of \<^verbatim>\<open>get\<close>, where nothing settles the promise.
\<close>

definition updateReportInDb :: "idb \<Rightarrow> string \<Rightarrow> obj \<Rightarrow> unit promise \<times> idb" where
  "updateReportInDb env reportId updates =
     (case openDB env of
        Inl e \<Rightarrow> (Rejected e, env)
      | Inr _ \<Rightarrow>
          if fault env = Read_fails then (Rejected (DOMException ''UnknownError''), env)
          else
            (case store_get ''id'' (Str reportId) (STORE_REPORTS env) of
               None \<Rightarrow> (Rejected (Error ''Report not found''), env)
             | Some data \<Rightarrow>
                 (let updatedData = spread data updates in
                    case store_put ''id'' [] (fault env) updatedData (STORE_REPORTS env) of
                      Throws e \<Rightarrow> (Pending, env)
                    | Request_error e \<Rightarrow> (Rejected e, env)
                    | Stored rs \<Rightarrow> (Resolved (), env\<lparr>STORE_REPORTS := rs\<rparr>))))"

text \<open>\<^verbatim>\<open>updateUserInDb(uid, updates)\<close>: the same on \<^verbatim>\<open>users\<close>, whose \<^verbatim>\<open>put\<close> is subject to the
  unique email index.\<close>

definition updateUserInDb :: "idb \<Rightarrow> string \<Rightarrow> obj \<Rightarrow> unit promise \<times> idb" where
  "updateUserInDb env uid updates =
     (case openDB env of
        Inl e \<Rightarrow> (Rejected e, env)
      | Inr _ \<Rightarrow>
          if fault env = Read_fails then (Rejected (DOMException ''UnknownError''), env)
          else
            (case store_get ''_id'' (Str uid) (STORE_USERS env) of
               None \<Rightarrow> (Rejected (Error ''User not found''), env)
             | Some data \<Rightarrow>
                 (let updatedData = spread data updates in
                    case store_put ''_id'' [''email''] (fault env) updatedData (STORE_USERS env) of
                      Throws e \<Rightarrow> (Pending, env)
                    | Request_error e \<Rightarrow> (Rejected e, env)
                    | Stored rs \<Rightarrow> (Resolved (), env\<lparr>STORE_USERS := rs\<rparr>))))"

text \<open>
  \<^verbatim>\<open>performTransaction(storeName, 'readwrite', callback)\<close>, for a callback that issues one
  write request. The whole body runs in a \<^verbatim>\<open>try\<close> whose \<^verbatim>\<open>catch\<close> rejects, so a failed
  open and a throwing request both reject; a request error reaches \<^verbatim>\<open>transaction.onerror\<close>
  and rejects; \<^verbatim>\<open>transaction.oncomplete\<close> resolves. The resolved value (the key) is not
  used by any caller. The rejection of a failed request carries \<^verbatim>\<open>transaction.error\<close>; the
  model records the error of the request in its place.
\<close>

datatype store_name = Users | Reports

fun objectStore :: "idb \<Rightarrow> store_name \<Rightarrow> obj list" where
  "objectStore env Users = STORE_USERS env"
| "objectStore env Reports = STORE_REPORTS env"

fun commit :: "store_name \<Rightarrow> obj list \<Rightarrow> idb \<Rightarrow> idb" where
  "commit Users rs env = env\<lparr>STORE_USERS := rs\<rparr>"
| "commit Reports rs env = env\<lparr>STORE_REPORTS := rs\<rparr>"

definition performTransaction ::
    "idb \<Rightarrow> store_name \<Rightarrow> (obj list \<Rightarrow> put_outcome) \<Rightarrow> unit promise \<times> idb" where
  "performTransaction env storeName callback =
     (case openDB env of
        Inl e \<Rightarrow> (Rejected e, env)
      | Inr _ \<Rightarrow>
          (case callback (objectStore env storeName) of
             Throws e \<Rightarrow> (Rejected e, env)
           | Request_error e \<Rightarrow> (Rejected e, env)
           | Stored rs \<Rightarrow> (Resolved (), commit storeName rs env)))"

text \<open>\<^verbatim>\<open>saveReportToDb(report)\<close>: \<^verbatim>\<open>put\<close> of \<^verbatim>\<open>{ ...report, updatedAt: new Date().toISOString() }\<close>.
  The clock reading is the argument \<open>now\<close>.\<close>

definition saveReportToDb :: "idb \<Rightarrow> string \<Rightarrow> obj \<Rightarrow> unit promise \<times> idb" where
  "saveReportToDb env now report =
     (let reportDoc = report(''updatedAt'' \<mapsto> Str now) in
        performTransaction env Reports (store_put ''id'' [] (fault env) reportDoc))"

text \<open>
  \<^verbatim>\<open>registerUser(email, pass, name, role, specialization?)\<close>. The lookup by email runs in
  \<^verbatim>\<open>openDB().then(...)\<close> inside a promise that has no handler for a failed open, so that
  promise then stays pending. \<open>date_now\<close> and \<open>rand\<close> are the two strings appended to
  "user_", \<open>created\<close> the creation time. The role is the runtime value of a \<^verbatim>\<open>UserRole\<close> member.
\<close>

record register_result =
  reg_user :: obj
  reg_role :: jsval

definition registerUser ::
    "idb \<Rightarrow> string \<Rightarrow> string \<Rightarrow> string \<Rightarrow> string \<Rightarrow> string \<Rightarrow> string \<Rightarrow> jsval \<Rightarrow> string option
      \<Rightarrow> register_result promise \<times> idb" where
  "registerUser env date_now rand created email pass nm rl specialization =
     (case openDB env of
        Inl e \<Rightarrow> (Pending, env)
      | Inr _ \<Rightarrow>
          if fault env = Read_fails then (Rejected (DOMException ''UnknownError''), env)
          else
            (case index_get ''email'' (Str email) (STORE_USERS env) of
               Some existingUser \<Rightarrow> (Rejected (Error ''User with this email already exists.''), env)
             | None \<Rightarrow>
                 (let newUser =
                        [''_id'' \<mapsto> Str (''user_'' @ date_now @ rand),
                         ''email'' \<mapsto> Str email,
                         ''password'' \<mapsto> Str pass,
                         ''name'' \<mapsto> Str nm,
                         ''role'' \<mapsto> rl,
                         ''createdAt'' \<mapsto> Str created,
                         ''bloodGroup'' \<mapsto> Str ''Unknown'',
                         ''age'' \<mapsto> Str [],
                         ''height'' \<mapsto> Str [],
                         ''weight'' \<mapsto> Str [],
                         ''phone'' \<mapsto> Str [],
                         ''dob'' \<mapsto> Str [],
                         ''specialization'' \<mapsto>
                            Str (case specialization of None \<Rightarrow> [] | Some s \<Rightarrow> s)]
                  in case performTransaction env Users
                            (store_add ''_id'' [''email''] (fault env) newUser) of
                       (Resolved _, env') \<Rightarrow>
                          (Resolved \<lparr>reg_user = newUser(''uid'' \<mapsto> js_prop newUser ''_id''),
                                     reg_role = js_prop newUser ''role''\<rparr>, env')
                     | (Rejected e, env') \<Rightarrow> (Rejected e, env')
                     | (Pending, env') \<Rightarrow> (Pending, env'))))"

text \<open>\<^verbatim>\<open>loginUser(email, pass)\<close>: the record found by email, rejected unless its password is
  strictly equal to \<open>pass\<close>, and projected onto eleven named properties.\<close>

record login_result =
  user :: obj
  role :: jsval
  name :: jsval

definition loginUser :: "idb \<Rightarrow> string \<Rightarrow> string \<Rightarrow> login_result promise" where
  "loginUser env email pass =
     (case openDB env of
        Inl e \<Rightarrow> Pending
      | Inr _ \<Rightarrow>
          if fault env = Read_fails then Rejected (DOMException ''UnknownError'')
          else
            (case index_get ''email'' (Str email) (STORE_USERS env) of
               None \<Rightarrow> Rejected (Error ''Invalid email or password.'')
             | Some u \<Rightarrow>
                 if js_prop u ''password'' \<noteq> Str pass
                 then Rejected (Error ''Invalid email or password.'')
                 else Resolved
                   \<lparr>user = [''uid'' \<mapsto> js_prop u ''_id'',
                            ''email'' \<mapsto> js_prop u ''email'',
                            ''name'' \<mapsto> js_prop u ''name'',
                            ''role'' \<mapsto> js_prop u ''role'',
                            ''bloodGroup'' \<mapsto> js_prop u ''bloodGroup'',
                            ''age'' \<mapsto> js_prop u ''age'',
                            ''dob'' \<mapsto> js_prop u ''dob'',
                            ''height'' \<mapsto> js_prop u ''height'',
                            ''weight'' \<mapsto> js_prop u ''weight'',
                            ''phone'' \<mapsto> js_prop u ''phone'',
                            ''specialization'' \<mapsto> js_prop u ''specialization''],
                    role = js_prop u ''role'',
                    name = js_prop u ''name''\<rparr>))"

text \<open>\<^verbatim>\<open>fetchAvailableDoctors()\<close>: all users whose \<^verbatim>\<open>role\<close> index key is \<^verbatim>\<open>UserRole.DOCTOR\<close>
  (its runtime value is the argument \<open>doctorRole\<close>), each projected onto five properties.
  \<^verbatim>\<open>getAll\<close> throws on an invalid key, inside the \<^verbatim>\<open>then\<close> callback.\<close>

definition fetchAvailableDoctors :: "idb \<Rightarrow> jsval \<Rightarrow> obj list promise" where
  "fetchAvailableDoctors env doctorRole =
     (case openDB env of
        Inl e \<Rightarrow> Pending
      | Inr _ \<Rightarrow>
          if \<not> valid_key doctorRole then Pending
          else if fault env = Read_fails then Rejected (DOMException ''UnknownError'')
          else Resolved
            (map (\<lambda>doc. [''uid'' \<mapsto> js_prop doc ''_id'',
                         ''name'' \<mapsto> js_prop doc ''name'',
                         ''email'' \<mapsto> js_prop doc ''email'',
                         ''role'' \<mapsto> js_prop doc ''role'',
                         ''specialization'' \<mapsto> js_prop doc ''specialization''])
                 (index_getAll ''role'' doctorRole (STORE_USERS env))))"

text \<open>
  \<^verbatim>\<open>results.sort((a, b) => b.timestamp - a.timestamp)\<close>. The difference of two numbers is
  a number; with an \<^verbatim>\<open>undefined\<close> operand it is \<^verbatim>\<open>NaN\<close>, here \<open>None\<close>, which \<^verbatim>\<open>sort\<close> reads
  as 0. (Any other operand would first be converted to a number; the timestamp of a
  \<^verbatim>\<open>HealthReport\<close> is a number, and the model gives \<open>None\<close> for every operand that is not.)
  \<^verbatim>\<open>Array.prototype.sort\<close> is stable: an element goes behind another only when the comparator
  is positive, which for a consistent comparator fixes the result.
\<close>

fun js_minus :: "jsval \<Rightarrow> jsval \<Rightarrow> int option" where
  "js_minus (Num x) (Num y) = Some (x - y)"
| "js_minus u v = None"

definition timestamp_desc :: "obj \<Rightarrow> obj \<Rightarrow> int option" where
  "timestamp_desc a b = js_minus (js_prop b ''timestamp'') (js_prop a ''timestamp'')"

definition sorts_after :: "('a \<Rightarrow> 'a \<Rightarrow> int option) \<Rightarrow> 'a \<Rightarrow> 'a \<Rightarrow> bool" where
  "sorts_after cmp x y = (case cmp x y of None \<Rightarrow> False | Some d \<Rightarrow> 0 < d)"

fun sort_insert :: "('a \<Rightarrow> 'a \<Rightarrow> int option) \<Rightarrow> 'a \<Rightarrow> 'a list \<Rightarrow> 'a list" where
  "sort_insert cmp x [] = [x]"
| "sort_insert cmp x (y # ys) =
     (if sorts_after cmp x y then y # sort_insert cmp x ys else x # y # ys)"

definition array_sort :: "('a \<Rightarrow> 'a \<Rightarrow> int option) \<Rightarrow> 'a list \<Rightarrow> 'a list" where
  "array_sort cmp xs = foldr (sort_insert cmp) xs []"

text \<open>\<^verbatim>\<open>fetchPatientReports(userId)\<close> and \<^verbatim>\<open>fetchReportsForSpecificDoctor(doctorId)\<close>: the
  records of one index key, sorted by timestamp descending. A failed open leaves the
  promise pending, as in \<^verbatim>\<open>registerUser\<close>.\<close>

definition fetchPatientReports :: "idb \<Rightarrow> string \<Rightarrow> obj list promise" where
  "fetchPatientReports env userId =
     (case openDB env of
        Inl e \<Rightarrow> Pending
      | Inr _ \<Rightarrow>
          if fault env = Read_fails then Rejected (DOMException ''UnknownError'')
          else Resolved (array_sort timestamp_desc
                           (index_getAll ''userId'' (Str userId) (STORE_REPORTS env))))"

definition fetchReportsForSpecificDoctor :: "idb \<Rightarrow> string \<Rightarrow> obj list promise" where
  "fetchReportsForSpecificDoctor env doctorId =
     (case openDB env of
        Inl e \<Rightarrow> Pending
      | Inr _ \<Rightarrow>
          if fault env = Read_fails then Rejected (DOMException ''UnknownError'')
          else Resolved (array_sort timestamp_desc
                           (index_getAll ''targetDoctorId'' (Str doctorId) (STORE_REPORTS env))))"

section \<open>The application store\<close>

text \<open>
  The state held by \<^verbatim>\<open>useAppStore\<close>. Every \<^verbatim>\<open>set\<close> call publishes a new state; an action is
  modelled by the promise it returns, the last state it published, the database it
  leaves, and the sequence of what it did: states published, service calls issued and
  messages written to the console.
\<close>

datatype UserRole = GUEST | PATIENT | DOCTOR

datatype sidebar_section = Profile | Library

record AppState =
  currentUserRole :: UserRole
  currentPatientName :: string
  currentUserId :: "string option"
  currentUserProfile :: "obj option"
  reports :: "obj list"
  availableDoctors :: "obj list"
  isLoading :: bool
  isSidebarOpen :: bool
  sidebarActiveSection :: sidebar_section

datatype event =
    Set_state AppState
  | Call_fetchPatientReports string
  | Call_fetchReportsForSpecificDoctor string
  | Call_updateReportInDb string obj
  | Console_error string error

record run =
  settled :: "unit promise"
  state :: AppState
  db :: idb
  events :: "event list"

text \<open>Truthiness of a \<^verbatim>\<open>string | null\<close>: \<^verbatim>\<open>null\<close> and the empty string are falsy.\<close>

fun truthy :: "string option \<Rightarrow> bool" where
  "truthy None = False"
| "truthy (Some s) = (s \<noteq> [])"

fun id_string :: "string option \<Rightarrow> string" where
  "id_string None = []"
| "id_string (Some s) = s"

text \<open>The \<^verbatim>\<open>try\<close> body of \<^verbatim>\<open>loadReports\<close> up to the assignment of \<^verbatim>\<open>fetchedReports\<close>: which
  service is called, and what its promise settles to.\<close>

definition loadReports_fetch :: "idb \<Rightarrow> UserRole \<Rightarrow> string option \<Rightarrow> event list \<times> obj list promise" where
  "loadReports_fetch env rl uid =
     (if rl = PATIENT \<and> truthy uid
        then ([Call_fetchPatientReports (id_string uid)], fetchPatientReports env (id_string uid))
      else if rl = DOCTOR \<and> truthy uid
        then ([Call_fetchReportsForSpecificDoctor (id_string uid)],
              fetchReportsForSpecificDoctor env (id_string uid))
      else ([], Resolved []))"

text \<open>\<^verbatim>\<open>loadReports()\<close>: early return, then \<^verbatim>\<open>try\<close>/\<^verbatim>\<open>catch\<close>/\<^verbatim>\<open>finally\<close> around the fetch.\<close>

definition loadReports :: "idb \<Rightarrow> AppState \<Rightarrow> run" where
  "loadReports env st =
     (if \<not> truthy (currentUserId st) \<and> currentUserRole st \<noteq> DOCTOR
        then \<lparr>settled = Resolved (), state = st, db = env, events = []\<rparr>
      else
        (let st1 = st\<lparr>isLoading := True\<rparr>;
             (calls, fetched) = loadReports_fetch env (currentUserRole st) (currentUserId st)
         in case fetched of
              Resolved fetchedReports \<Rightarrow>
                (let st2 = st1\<lparr>reports := fetchedReports\<rparr>;
                     st3 = st2\<lparr>isLoading := False\<rparr>
                 in \<lparr>settled = Resolved (), state = st3, db = env,
                     events = [Set_state st1] @ calls @ [Set_state st2, Set_state st3]\<rparr>)
            | Rejected e \<Rightarrow>
                (let st3 = st1\<lparr>isLoading := False\<rparr>
                 in \<lparr>settled = Resolved (), state = st3, db = env,
                     events = [Set_state st1] @ calls @
                              [Console_error ''Failed to load reports'' e, Set_state st3]\<rparr>)
            | Pending \<Rightarrow>
                \<lparr>settled = Pending, state = st1, db = env,
                 events = [Set_state st1] @ calls\<rparr>))"

text \<open>\<^verbatim>\<open>updateReportStatus(id, status, notes?)\<close>: the \<^verbatim>\<open>set\<close> with the mapped collection runs
  first; then \<^verbatim>\<open>updateReportInDb\<close> is awaited inside \<^verbatim>\<open>try\<close>/\<^verbatim>\<open>catch\<close>. An omitted \<open>notes\<close> is
  \<^verbatim>\<open>undefined\<close>.\<close>

fun optional :: "string option \<Rightarrow> jsval" where
  "optional None = Undefined"
| "optional (Some s) = Str s"

definition updateReportStatus :: "idb \<Rightarrow> AppState \<Rightarrow> string \<Rightarrow> jsval \<Rightarrow> string option \<Rightarrow> run" where
  "updateReportStatus env st ident status notes =
     (let st1 = st\<lparr>reports :=
                  map (\<lambda>r. if js_prop r ''id'' = Str ident
                           then r(''status'' \<mapsto> status, ''doctorNotes'' \<mapsto> optional notes)
                           else r)
                      (reports st)\<rparr>;
          updates = [''status'' \<mapsto> status, ''doctorNotes'' \<mapsto> optional notes]
      in case updateReportInDb env ident updates of
           (Resolved _, env') \<Rightarrow>
             \<lparr>settled = Resolved (), state = st1, db = env',
              events = [Set_state st1, Call_updateReportInDb ident updates]\<rparr>
         | (Rejected e, env') \<Rightarrow>
             \<lparr>settled = Resolved (), state = st1, db = env',
              events = [Set_state st1, Call_updateReportInDb ident updates,
                        Console_error ''Failed to update report in DB'' e]\<rparr>
         | (Pending, env') \<Rightarrow>
             \<lparr>settled = Pending, state = st1, db = env',
              events = [Set_state st1, Call_updateReportInDb ident updates]\<rparr>)"

section \<open>Specification vocabulary and a sample database\<close>

text \<open>The numeric timestamp of a report, for stating the order of a result.\<close>

definition timestamp_num :: "obj \<Rightarrow> int" where
  "timestamp_num r = (case js_prop r ''timestamp'' of Num n \<Rightarrow> n | _ \<Rightarrow> 0)"

text \<open>The report carries a number as its timestamp, as the type \<^verbatim>\<open>HealthReport\<close> requires.\<close>

definition has_timestamp :: "obj \<Rightarrow> bool" where
  "has_timestamp r = (case js_prop r ''timestamp'' of Num n \<Rightarrow> True | _ \<Rightarrow> False)"

text \<open>A result \<open>rs\<close> lists the records \<open>src\<close> newest first, keeping the order of \<open>src\<close> among
  records of equal timestamp.\<close>

definition newest_first_stable :: "obj list \<Rightarrow> obj list \<Rightarrow> bool" where
  "newest_first_stable src rs =
     (mset rs = mset src \<and>
      sorted_wrt (\<lambda>a b. timestamp_num b \<le> timestamp_num a) rs \<and>
      (\<forall>t. filter (\<lambda>r. timestamp_num r = t) rs = filter (\<lambda>r. timestamp_num r = t) src))"

text \<open>The end-to-end scenario of the specification: a doctor, a patient, and reports
  routed to two doctors, two of them with the same timestamp.\<close>

definition ex_doctor :: obj where
  "ex_doctor = [''_id'' \<mapsto> Str ''user_1d'', ''email'' \<mapsto> Str ''d@x.com'',
                ''password'' \<mapsto> Str ''pw-d'', ''name'' \<mapsto> Str ''D'',
                ''role'' \<mapsto> Str ''DOCTOR'', ''specialization'' \<mapsto> Str ''ENT'']"

definition ex_patient :: obj where
  "ex_patient = [''_id'' \<mapsto> Str ''user_2p'', ''email'' \<mapsto> Str ''p@x.com'',
                 ''password'' \<mapsto> Str ''pw-p'', ''name'' \<mapsto> Str ''P'',
                 ''role'' \<mapsto> Str ''PATIENT'', ''specialization'' \<mapsto> Str []]"

definition ex_report :: "string \<Rightarrow> string \<Rightarrow> int \<Rightarrow> obj" where
  "ex_report i d t = [''id'' \<mapsto> Str i, ''userId'' \<mapsto> Str ''user_2p'',
                      ''targetDoctorId'' \<mapsto> Str d, ''timestamp'' \<mapsto> Num t,
                      ''status'' \<mapsto> Str ''pending'', ''updatedAt'' \<mapsto> Str ''2024-01-01'']"

definition ex_db :: idb where
  "ex_db = \<lparr>fault = No_fault,
            STORE_USERS = [ex_doctor, ex_patient],
            STORE_REPORTS = [ex_report ''r1'' ''user_1d'' 100, ex_report ''r2'' ''user_1d'' 200,
                             ex_report ''r3'' ''user_1d'' 100, ex_report ''r4'' ''user_9d'' 300]\<rparr>"

definition ex_state :: AppState where
  "ex_state = \<lparr>currentUserRole = DOCTOR, currentPatientName = ''D'',
               currentUserId = Some ''user_1d'', currentUserProfile = None,
               reports = [ex_report ''r2'' ''user_1d'' 200, ex_report ''r1'' ''user_1d'' 100],
               availableDoctors = [], isLoading = False, isSidebarOpen = False,
               sidebarActiveSection = Profile\<rparr>"

text \<open>A session whose identity is the empty string, as \<^verbatim>\<open>setAuth(UserRole.GUEST, "", "")\<close>
  leaves it.\<close>

definition ex_guest :: AppState where
  "ex_guest = \<lparr>currentUserRole = GUEST, currentPatientName = [],
               currentUserId = Some [], currentUserProfile = None,
               reports = [ex_report ''r1'' ''user_1d'' 100],
               availableDoctors = [], isLoading = False, isSidebarOpen = False,
               sidebarActiveSection = Profile\<rparr>"

section \<open>Object stores: lookup after a write, and the store invariant\<close>

lemma key_less_trans: "key_less a b \<Longrightarrow> key_less b c \<Longrightarrow> key_less a c"
  by (cases a; cases b; cases c) auto

lemma key_less_irrefl: "\<not> key_less a a"
  by (cases a) auto

lemma key_less_total: "valid_key a \<Longrightarrow> valid_key b \<Longrightarrow> a = b \<or> key_less a b \<or> key_less b a"
  by (cases a; cases b) auto

lemma store_get_insert:
  "store_get kp k (store_insert kp v rs) = (if k = js_prop v kp then Some v else store_get kp k rs)"
  by (induction rs) (auto simp: store_get_def)

lemma set_store_insert: "set (store_insert kp v rs) \<subseteq> insert v (set rs)"
  by (induction rs) auto

lemma store_get_Some_key: "store_get kp k rs = Some d \<Longrightarrow> js_prop d kp = k \<and> d \<in> set rs"
  by (auto simp: store_get_def find_Some_iff)

lemma wf_store_insert:
  assumes "wf_store kp rs" and "valid_key (js_prop v kp)"
  shows "wf_store kp (store_insert kp v rs)"
  using assms
proof (induction rs)
  case Nil
  then show ?case by (simp add: wf_store_def)
next
  case (Cons r rs)
  have tl: "wf_store kp rs" using Cons.prems(1) by (simp add: wf_store_def)
  have ih: "wf_store kp (store_insert kp v rs)" using Cons.IH tl Cons.prems(2) by simp
  have rv: "valid_key (js_prop r kp)" using Cons.prems(1) by (simp add: wf_store_def)
  have below: "\<forall>x\<in>set rs. key_less (js_prop r kp) (js_prop x kp)"
    using Cons.prems(1) by (simp add: wf_store_def)
  show ?case
  proof (cases "js_prop v kp = js_prop r kp")
    case True
    then show ?thesis using Cons.prems by (simp add: wf_store_def)
  next
    case False
    show ?thesis
    proof (cases "key_less (js_prop v kp) (js_prop r kp)")
      case True
      then have "\<forall>x\<in>set rs. key_less (js_prop v kp) (js_prop x kp)"
        using below key_less_trans by blast
      then show ?thesis using False True Cons.prems by (simp add: wf_store_def)
    next
      case nless: False
      have "key_less (js_prop r kp) (js_prop v kp)"
        using key_less_total [OF Cons.prems(2) rv] False nless by auto
      then have "\<forall>x\<in>set (store_insert kp v rs). key_less (js_prop r kp) (js_prop x kp)"
        using below set_store_insert [of kp v rs] by auto
      then show ?thesis using False nless ih rv by (simp add: wf_store_def)
    qed
  qed
qed

text \<open>A write over an existing key replaces the record where it stands: whatever the old
  and the new record agree on is unchanged position by position.\<close>

lemma store_insert_map:
  assumes "wf_store kp rs" and "store_get kp (js_prop v kp) rs = Some d" and "f v = f d"
  shows "map f (store_insert kp v rs) = map f rs"
  using assms
proof (induction rs)
  case Nil
  then show ?case by (simp add: store_get_def)
next
  case (Cons r rs)
  show ?case
  proof (cases "js_prop v kp = js_prop r kp")
    case True
    then have "d = r" using Cons.prems(2) by (simp add: store_get_def)
    then show ?thesis using True Cons.prems(3) by simp
  next
    case False
    then have g: "store_get kp (js_prop v kp) rs = Some d"
      using Cons.prems(2) by (simp add: store_get_def)
    then have "d \<in> set rs" and "js_prop d kp = js_prop v kp"
      using store_get_Some_key by blast+
    then have "key_less (js_prop r kp) (js_prop v kp)"
      using Cons.prems(1) by (auto simp: wf_store_def)
    then have "\<not> key_less (js_prop v kp) (js_prop r kp)"
      using key_less_trans key_less_irrefl by blast
    moreover have "wf_store kp rs" using Cons.prems(1) by (simp add: wf_store_def)
    ultimately show ?thesis using False Cons.IH g Cons.prems(3) by simp
  qed
qed

section \<open>Merge-update on a missing id\<close>

text \<open>
  C2. When the target collection holds no record under the id, \<^verbatim>\<open>updateReportInDb\<close> and
  \<^verbatim>\<open>updateUserInDb\<close> fail and write nothing: the database after the call is the database
  before it, the returned promise is rejected, and unless the engine itself failed first
  the rejection is the not-found error ("Report not found", "User not found").
\<close>

theorem merge_update_missing_id:
  "(store_get ''id'' (Str reportId) (STORE_REPORTS env) = None \<longrightarrow>
      snd (updateReportInDb env reportId updates) = env \<and>
      (\<exists>e. fst (updateReportInDb env reportId updates) = Rejected e) \<and>
      (fault env \<noteq> Open_fails \<and> fault env \<noteq> Read_fails \<longrightarrow>
         fst (updateReportInDb env reportId updates) = Rejected (Error ''Report not found''))) \<and>
   (store_get ''_id'' (Str uid) (STORE_USERS env) = None \<longrightarrow>
      snd (updateUserInDb env uid updates) = env \<and>
      (\<exists>e. fst (updateUserInDb env uid updates) = Rejected e) \<and>
      (fault env \<noteq> Open_fails \<and> fault env \<noteq> Read_fails \<longrightarrow>
         fst (updateUserInDb env uid updates) = Rejected (Error ''User not found'')))"
  by (simp add: updateReportInDb_def updateUserInDb_def openDB_def)

theorem merge_update_missing_id_witness:
  "store_get ''id'' (Str ''r9'') (STORE_REPORTS ex_db) = None \<and>
   store_get ''_id'' (Str ''user_9'') (STORE_USERS ex_db) = None \<and>
   fault ex_db \<noteq> Open_fails \<and> fault ex_db \<noteq> Read_fails \<and>
   updateReportInDb ex_db ''r9'' [''status'' \<mapsto> Str ''reviewed'']
     = (Rejected (Error ''Report not found''), ex_db) \<and>
   updateUserInDb ex_db ''user_9'' [''name'' \<mapsto> Str ''N'']
     = (Rejected (Error ''User not found''), ex_db)"
proof -
  have h1: "store_get ''id'' (Str ''r9'') (STORE_REPORTS ex_db) = None"
    by (simp add: ex_db_def ex_report_def store_get_def js_prop_def)
  have h2: "store_get ''_id'' (Str ''user_9'') (STORE_USERS ex_db) = None"
    by (simp add: ex_db_def ex_doctor_def ex_patient_def store_get_def js_prop_def)
  have h3: "fault ex_db \<noteq> Open_fails \<and> fault ex_db \<noteq> Read_fails"
    by (simp add: ex_db_def)
  show ?thesis
    using h1 h2 h3
      merge_update_missing_id [of "''r9''" ex_db "[''status'' \<mapsto> Str ''reviewed'']" "''user_9''"]
      merge_update_missing_id [of "''r9''" ex_db "[''name'' \<mapsto> Str ''N'']" "''user_9''"]
    by (simp add: prod_eq_iff)
qed

section \<open>Merge-update on an existing record\<close>

text \<open>
  C1 (as amended). Let a record be stored under the id and let the partial update leave
  the key property of the merged record equal to that id; for users let moreover no other
  user hold the email of the merged record. Then, on a working engine, the merge-update
  resolves and the record stored under the id afterwards is the shallow merge: every
  property present in the update has the update's value, every property absent from it
  has the value stored before. Records under other keys and the other collection are
  untouched.
\<close>

theorem merge_update_stores_merge:
  "(fault env = No_fault \<and>
    store_get ''id'' (Str reportId) (STORE_REPORTS env) = Some data \<and>
    js_prop (spread data updates) ''id'' = Str reportId \<longrightarrow>
      fst (updateReportInDb env reportId updates) = Resolved () \<and>
      store_get ''id'' (Str reportId) (STORE_REPORTS (snd (updateReportInDb env reportId updates)))
        = Some (spread data updates) \<and>
      (\<forall>k. k \<noteq> Str reportId \<longrightarrow>
           store_get ''id'' k (STORE_REPORTS (snd (updateReportInDb env reportId updates)))
             = store_get ''id'' k (STORE_REPORTS env)) \<and>
      STORE_USERS (snd (updateReportInDb env reportId updates)) = STORE_USERS env) \<and>
   (fault env = No_fault \<and>
    store_get ''_id'' (Str uid) (STORE_USERS env) = Some data \<and>
    js_prop (spread data updates) ''_id'' = Str uid \<and>
    \<not> unique_conflict ''_id'' ''email'' (spread data updates) (STORE_USERS env) \<longrightarrow>
      fst (updateUserInDb env uid updates) = Resolved () \<and>
      store_get ''_id'' (Str uid) (STORE_USERS (snd (updateUserInDb env uid updates)))
        = Some (spread data updates) \<and>
      (\<forall>k. k \<noteq> Str uid \<longrightarrow>
           store_get ''_id'' k (STORE_USERS (snd (updateUserInDb env uid updates)))
             = store_get ''_id'' k (STORE_USERS env)) \<and>
      STORE_REPORTS (snd (updateUserInDb env uid updates)) = STORE_REPORTS env) \<and>
   (\<forall>f v. updates f = Some v \<longrightarrow> spread data updates f = Some v) \<and>
   (\<forall>f. updates f = None \<longrightarrow> spread data updates f = data f)"
proof (intro conjI)
  show "fault env = No_fault \<and>
    store_get ''id'' (Str reportId) (STORE_REPORTS env) = Some data \<and>
    js_prop (spread data updates) ''id'' = Str reportId \<longrightarrow>
      fst (updateReportInDb env reportId updates) = Resolved () \<and>
      store_get ''id'' (Str reportId) (STORE_REPORTS (snd (updateReportInDb env reportId updates)))
        = Some (spread data updates) \<and>
      (\<forall>k. k \<noteq> Str reportId \<longrightarrow>
           store_get ''id'' k (STORE_REPORTS (snd (updateReportInDb env reportId updates)))
             = store_get ''id'' k (STORE_REPORTS env)) \<and>
      STORE_USERS (snd (updateReportInDb env reportId updates)) = STORE_USERS env"
    by (simp add: updateReportInDb_def openDB_def store_put_def store_get_insert)
  show "fault env = No_fault \<and>
    store_get ''_id'' (Str uid) (STORE_USERS env) = Some data \<and>
    js_prop (spread data updates) ''_id'' = Str uid \<and>
    \<not> unique_conflict ''_id'' ''email'' (spread data updates) (STORE_USERS env) \<longrightarrow>
      fst (updateUserInDb env uid updates) = Resolved () \<and>
      store_get ''_id'' (Str uid) (STORE_USERS (snd (updateUserInDb env uid updates)))
        = Some (spread data updates) \<and>
      (\<forall>k. k \<noteq> Str uid \<longrightarrow>
           store_get ''_id'' k (STORE_USERS (snd (updateUserInDb env uid updates)))
             = store_get ''_id'' k (STORE_USERS env)) \<and>
      STORE_REPORTS (snd (updateUserInDb env uid updates)) = STORE_REPORTS env"
    by (simp add: updateUserInDb_def openDB_def store_put_def store_get_insert)
  show "\<forall>f v. updates f = Some v \<longrightarrow> spread data updates f = Some v"
    by (simp add: spread_def map_add_def)
  show "\<forall>f. updates f = None \<longrightarrow> spread data updates f = data f"
    by (simp add: spread_def map_add_def)
qed

text \<open>The theorem at the sample database: a status update of report r1 and a name update
  of the patient.\<close>

theorem merge_update_stores_merge_witness:
  "fault ex_db = No_fault \<and>
   store_get ''id'' (Str ''r1'') (STORE_REPORTS ex_db) = Some (ex_report ''r1'' ''user_1d'' 100) \<and>
   js_prop (spread (ex_report ''r1'' ''user_1d'' 100) [''status'' \<mapsto> Str ''reviewed'']) ''id'' = Str ''r1'' \<and>
   fst (updateReportInDb ex_db ''r1'' [''status'' \<mapsto> Str ''reviewed'']) = Resolved () \<and>
   store_get ''id'' (Str ''r1'')
      (STORE_REPORTS (snd (updateReportInDb ex_db ''r1'' [''status'' \<mapsto> Str ''reviewed''])))
     = Some ((ex_report ''r1'' ''user_1d'' 100)(''status'' \<mapsto> Str ''reviewed'')) \<and>
   store_get ''_id'' (Str ''user_2p'') (STORE_USERS ex_db) = Some ex_patient \<and>
   js_prop (spread ex_patient [''name'' \<mapsto> Str ''Q'']) ''_id'' = Str ''user_2p'' \<and>
   \<not> unique_conflict ''_id'' ''email'' (spread ex_patient [''name'' \<mapsto> Str ''Q'']) (STORE_USERS ex_db) \<and>
   fst (updateUserInDb ex_db ''user_2p'' [''name'' \<mapsto> Str ''Q'']) = Resolved () \<and>
   store_get ''_id'' (Str ''user_2p'')
      (STORE_USERS (snd (updateUserInDb ex_db ''user_2p'' [''name'' \<mapsto> Str ''Q''])))
     = Some (ex_patient(''name'' \<mapsto> Str ''Q''))"
proof -
  have f: "fault ex_db = No_fault" by (simp add: ex_db_def)
  have g1: "store_get ''id'' (Str ''r1'') (STORE_REPORTS ex_db) = Some (ex_report ''r1'' ''user_1d'' 100)"
    by (simp add: ex_db_def ex_report_def store_get_def js_prop_def)
  have k1: "js_prop (spread (ex_report ''r1'' ''user_1d'' 100) [''status'' \<mapsto> Str ''reviewed'']) ''id'' = Str ''r1''"
    by (simp add: ex_report_def spread_def js_prop_def)
  have g2: "store_get ''_id'' (Str ''user_2p'') (STORE_USERS ex_db) = Some ex_patient"
    by (simp add: ex_db_def ex_doctor_def ex_patient_def store_get_def js_prop_def)
  have k2: "js_prop (spread ex_patient [''name'' \<mapsto> Str ''Q'']) ''_id'' = Str ''user_2p''"
    by (simp add: ex_patient_def spread_def js_prop_def)
  have u2: "\<not> unique_conflict ''_id'' ''email'' (spread ex_patient [''name'' \<mapsto> Str ''Q'']) (STORE_USERS ex_db)"
    by (simp add: unique_conflict_def ex_db_def ex_doctor_def ex_patient_def spread_def js_prop_def)
  have s1: "spread (ex_report ''r1'' ''user_1d'' 100) [''status'' \<mapsto> Str ''reviewed'']
              = (ex_report ''r1'' ''user_1d'' 100)(''status'' \<mapsto> Str ''reviewed'')"
    by (simp add: spread_def)
  have s2: "spread ex_patient [''name'' \<mapsto> Str ''Q''] = ex_patient(''name'' \<mapsto> Str ''Q'')"
    by (simp add: spread_def)
  show ?thesis
    using f g1 k1 g2 k2 u2
      merge_update_stores_merge [of ex_db "''r1''" "ex_report ''r1'' ''user_1d'' 100"
         "[''status'' \<mapsto> Str ''reviewed'']" "''user_9''"]
      merge_update_stores_merge [of ex_db "''r9''" ex_patient "[''name'' \<mapsto> Str ''Q'']" "''user_2p''"]
    by (simp add: s1 s2)
qed

text \<open>
  Without those conditions the statement fails. An update that sets \<^verbatim>\<open>id\<close> writes the merge
  under the new key and leaves the record under the old id as it was; an update that sets
  a user's email to one that another user holds is refused by the unique index and
  nothing is stored.
\<close>

theorem merge_update_stores_merge_counterexample:
  "fault ex_db = No_fault \<and>
   store_get ''id'' (Str ''r1'') (STORE_REPORTS ex_db) = Some (ex_report ''r1'' ''user_1d'' 100) \<and>
   fst (updateReportInDb ex_db ''r1'' [''id'' \<mapsto> Str ''r9'']) = Resolved () \<and>
   store_get ''id'' (Str ''r1'')
      (STORE_REPORTS (snd (updateReportInDb ex_db ''r1'' [''id'' \<mapsto> Str ''r9''])))
     = Some (ex_report ''r1'' ''user_1d'' 100) \<and>
   ex_report ''r1'' ''user_1d'' 100 \<noteq> spread (ex_report ''r1'' ''user_1d'' 100) [''id'' \<mapsto> Str ''r9''] \<and>
   store_get ''_id'' (Str ''user_2p'') (STORE_USERS ex_db) = Some ex_patient \<and>
   updateUserInDb ex_db ''user_2p'' [''email'' \<mapsto> Str ''d@x.com'']
     = (Rejected (DOMException ''ConstraintError''), ex_db) \<and>
   ex_patient \<noteq> spread ex_patient [''email'' \<mapsto> Str ''d@x.com'']"
proof -
  have a: "ex_report ''r1'' ''user_1d'' 100 ''id'' = Some (Str ''r1'')"
    by (simp add: ex_report_def)
  have b: "spread (ex_report ''r1'' ''user_1d'' 100) [''id'' \<mapsto> Str ''r9''] ''id'' = Some (Str ''r9'')"
    by (simp add: spread_def)
  have ne1: "ex_report ''r1'' ''user_1d'' 100 \<noteq> spread (ex_report ''r1'' ''user_1d'' 100) [''id'' \<mapsto> Str ''r9'']"
  proof
    assume "ex_report ''r1'' ''user_1d'' 100 = spread (ex_report ''r1'' ''user_1d'' 100) [''id'' \<mapsto> Str ''r9'']"
    then have "ex_report ''r1'' ''user_1d'' 100 ''id''
                 = spread (ex_report ''r1'' ''user_1d'' 100) [''id'' \<mapsto> Str ''r9''] ''id''"
      by simp
    then show False using a b by simp
  qed
  have c: "ex_patient ''email'' = Some (Str ''p@x.com'')"
    by (simp add: ex_patient_def)
  have d: "spread ex_patient [''email'' \<mapsto> Str ''d@x.com''] ''email'' = Some (Str ''d@x.com'')"
    by (simp add: spread_def)
  have ne2: "ex_patient \<noteq> spread ex_patient [''email'' \<mapsto> Str ''d@x.com'']"
  proof
    assume "ex_patient = spread ex_patient [''email'' \<mapsto> Str ''d@x.com'']"
    then have "ex_patient ''email'' = spread ex_patient [''email'' \<mapsto> Str ''d@x.com''] ''email''"
      by simp
    then show False using c d by simp
  qed
  have rest: "fault ex_db = No_fault \<and>
   store_get ''id'' (Str ''r1'') (STORE_REPORTS ex_db) = Some (ex_report ''r1'' ''user_1d'' 100) \<and>
   fst (updateReportInDb ex_db ''r1'' [''id'' \<mapsto> Str ''r9'']) = Resolved () \<and>
   store_get ''id'' (Str ''r1'')
      (STORE_REPORTS (snd (updateReportInDb ex_db ''r1'' [''id'' \<mapsto> Str ''r9''])))
     = Some (ex_report ''r1'' ''user_1d'' 100) \<and>
   store_get ''_id'' (Str ''user_2p'') (STORE_USERS ex_db) = Some ex_patient \<and>
   updateUserInDb ex_db ''user_2p'' [''email'' \<mapsto> Str ''d@x.com'']
     = (Rejected (DOMException ''ConstraintError''), ex_db)"
    by (simp add: updateReportInDb_def updateUserInDb_def openDB_def ex_db_def ex_report_def
      ex_doctor_def ex_patient_def store_get_def store_put_def unique_conflict_def
      spread_def js_prop_def)
  show ?thesis using rest ne1 ne2 by simp
qed

section \<open>Registration with an email that is taken\<close>

lemma index_get_member:
  "u \<in> set rs \<Longrightarrow> js_prop u ix = k \<Longrightarrow> \<exists>r. index_get ix k rs = Some r"
  by (cases "index_get ix k rs") (auto simp: index_get_def find_None_iff)

lemma unique_index_getAll:
  assumes "unique_index ix rs" and "u \<in> set rs" and "js_prop u ix = k" and "valid_key k"
  shows "index_getAll ix k rs = [u]"
  using assms
proof (induction rs)
  case Nil
  then show ?case by simp
next
  case (Cons r rs)
  have tl: "unique_index ix rs" using Cons.prems(1) by (simp add: unique_index_def split: if_splits)
  show ?case
  proof (cases "js_prop r ix = k")
    case True
    then have fresh: "k \<notin> set (map (\<lambda>x. js_prop x ix) rs)"
      using Cons.prems(1,4) by (auto simp: unique_index_def)
    then have "u \<notin> set rs" using Cons.prems(3) by auto
    then have "u = r" using Cons.prems(2) by simp
    moreover have "filter (\<lambda>x. js_prop x ix = k) rs = []"
      using fresh by (auto simp: filter_empty_conv)
    ultimately show ?thesis using True by (simp add: index_getAll_def)
  next
    case False
    then have "u \<in> set rs" using Cons.prems(2,3) by auto
    then have "index_getAll ix k rs = [u]" using Cons.IH tl Cons.prems(3,4) by simp
    then show ?thesis using False by (simp add: index_getAll_def)
  qed
qed

text \<open>
  C3. When a user with the email is already stored, \<^verbatim>\<open>registerUser\<close> with that email does
  not succeed and leaves the database as it was; unless the engine failed first it rejects
  with "User with this email already exists.". Under the unique email index the store
  afterwards holds exactly one user with that email, the one that was there before.
\<close>

theorem register_duplicate_email:
  assumes "u \<in> set (STORE_USERS env)" and "js_prop u ''email'' = Str email"
  shows "snd (registerUser env date_now rand created email pass nm rl specialization) = env \<and>
         (\<forall>v. fst (registerUser env date_now rand created email pass nm rl specialization) \<noteq> Resolved v) \<and>
         (fault env \<noteq> Open_fails \<and> fault env \<noteq> Read_fails \<longrightarrow>
            fst (registerUser env date_now rand created email pass nm rl specialization)
              = Rejected (Error ''User with this email already exists.'')) \<and>
         (unique_index ''email'' (STORE_USERS env) \<longrightarrow>
            index_getAll ''email'' (Str email)
              (STORE_USERS (snd (registerUser env date_now rand created email pass nm rl specialization)))
              = [u])"
proof -
  obtain r where r: "index_get ''email'' (Str email) (STORE_USERS env) = Some r"
    using index_get_member [OF assms] by blast
  have res: "registerUser env date_now rand created email pass nm rl specialization =
      (if fault env = Open_fails then Pending
       else if fault env = Read_fails then Rejected (DOMException ''UnknownError'')
       else Rejected (Error ''User with this email already exists.''), env)"
    using r by (simp add: registerUser_def openDB_def)
  have one: "unique_index ''email'' (STORE_USERS env) \<longrightarrow>
      index_getAll ''email'' (Str email) (STORE_USERS env) = [u]"
    using unique_index_getAll [OF _ assms] by simp
  show ?thesis using one by (simp add: res)
qed

theorem register_duplicate_email_witness:
  "ex_doctor \<in> set (STORE_USERS ex_db) \<and> js_prop ex_doctor ''email'' = Str ''d@x.com'' \<and>
   fault ex_db \<noteq> Open_fails \<and> fault ex_db \<noteq> Read_fails \<and>
   unique_index ''email'' (STORE_USERS ex_db) \<and>
   registerUser ex_db ''1700000000000'' ''k3j9x2q'' ''2024-01-02'' ''d@x.com'' ''pw''
       ''Mallory'' (Str ''PATIENT'') None
     = (Rejected (Error ''User with this email already exists.''), ex_db) \<and>
   index_getAll ''email'' (Str ''d@x.com'') (STORE_USERS ex_db) = [ex_doctor]"
proof -
  have m: "ex_doctor \<in> set (STORE_USERS ex_db)" by (simp add: ex_db_def)
  have e: "js_prop ex_doctor ''email'' = Str ''d@x.com''" by (simp add: ex_doctor_def js_prop_def)
  have f: "fault ex_db \<noteq> Open_fails \<and> fault ex_db \<noteq> Read_fails" by (simp add: ex_db_def)
  have q: "unique_index ''email'' (STORE_USERS ex_db)"
    by (simp add: unique_index_def ex_db_def ex_doctor_def ex_patient_def js_prop_def)
  show ?thesis
    using m e f q
      register_duplicate_email [OF m e, of "''1700000000000''" "''k3j9x2q''" "''2024-01-02''"
        "''pw''" "''Mallory''" "Str ''PATIENT''" None]
    by (simp add: prod_eq_iff cong: conj_cong)
qed

section \<open>Index queries, newest first\<close>

text \<open>For reports with numeric timestamps the comparator says "behind" exactly when the
  timestamp is smaller.\<close>

lemma sorts_after_timestamp:
  "has_timestamp x \<Longrightarrow> has_timestamp y \<Longrightarrow>
     sorts_after timestamp_desc x y = (timestamp_num x < timestamp_num y)"
  by (auto simp: has_timestamp_def sorts_after_def timestamp_desc_def timestamp_num_def
           split: jsval.splits)

lemma mset_sort_insert: "mset (sort_insert cmp x ys) = add_mset x (mset ys)"
  by (induction ys) auto

lemma mset_array_sort: "mset (array_sort cmp xs) = mset xs"
  by (induction xs) (auto simp: array_sort_def mset_sort_insert)

lemma set_sort_insert: "set (sort_insert cmp x ys) = insert x (set ys)"
  by (induction ys) auto

lemma set_array_sort: "set (array_sort cmp xs) = set xs"
  by (induction xs) (auto simp: array_sort_def set_sort_insert)

lemma sorted_sort_insert:
  assumes "has_timestamp x" and "list_all has_timestamp ys"
    and "sorted_wrt (\<lambda>a b. timestamp_num b \<le> timestamp_num a) ys"
  shows "sorted_wrt (\<lambda>a b. timestamp_num b \<le> timestamp_num a) (sort_insert timestamp_desc x ys)"
  using assms
proof (induction ys)
  case Nil
  then show ?case by simp
next
  case (Cons y ys)
  have yt: "has_timestamp y" using Cons.prems(2) by simp
  show ?case
  proof (cases "timestamp_num x < timestamp_num y")
    case True
    then have "sort_insert timestamp_desc x (y # ys) = y # sort_insert timestamp_desc x ys"
      using sorts_after_timestamp [OF Cons.prems(1) yt] by simp
    moreover have "sorted_wrt (\<lambda>a b. timestamp_num b \<le> timestamp_num a) (sort_insert timestamp_desc x ys)"
      using Cons by simp
    moreover have "\<forall>z\<in>set (sort_insert timestamp_desc x ys). timestamp_num z \<le> timestamp_num y"
      using True Cons.prems(3) by (auto simp: set_sort_insert)
    ultimately show ?thesis by simp
  next
    case False
    then have "sort_insert timestamp_desc x (y # ys) = x # y # ys"
      using sorts_after_timestamp [OF Cons.prems(1) yt] by simp
    moreover have "\<forall>z\<in>set (y # ys). timestamp_num z \<le> timestamp_num x"
      using False Cons.prems(3) by fastforce
    ultimately show ?thesis using Cons.prems(3) by simp
  qed
qed

lemma sorted_array_sort:
  "list_all has_timestamp xs \<Longrightarrow>
     sorted_wrt (\<lambda>a b. timestamp_num b \<le> timestamp_num a) (array_sort timestamp_desc xs)"
proof (induction xs)
  case Nil
  then show ?case by (simp add: array_sort_def)
next
  case (Cons x xs)
  have "list_all has_timestamp (array_sort timestamp_desc xs)"
    using Cons.prems by (simp add: list_all_iff set_array_sort)
  then show ?case
    using Cons sorted_sort_insert [of x "array_sort timestamp_desc xs"]
    by (simp add: array_sort_def)
qed

lemma filter_sort_insert:
  assumes "has_timestamp x" and "list_all has_timestamp ys"
  shows "filter (\<lambda>r. timestamp_num r = t) (sort_insert timestamp_desc x ys)
           = filter (\<lambda>r. timestamp_num r = t) (x # ys)"
  using assms
proof (induction ys)
  case Nil
  then show ?case by simp
next
  case (Cons y ys)
  have yt: "has_timestamp y" using Cons.prems(2) by simp
  have ih: "filter (\<lambda>r. timestamp_num r = t) (sort_insert timestamp_desc x ys)
              = filter (\<lambda>r. timestamp_num r = t) (x # ys)"
    using Cons by simp
  show ?case
  proof (cases "timestamp_num x < timestamp_num y")
    case True
    then have "sort_insert timestamp_desc x (y # ys) = y # sort_insert timestamp_desc x ys"
      using sorts_after_timestamp [OF Cons.prems(1) yt] by simp
    then show ?thesis using ih True by auto
  next
    case False
    then have "sort_insert timestamp_desc x (y # ys) = x # y # ys"
      using sorts_after_timestamp [OF Cons.prems(1) yt] by simp
    then show ?thesis by simp
  qed
qed

lemma filter_array_sort:
  "list_all has_timestamp xs \<Longrightarrow>
     filter (\<lambda>r. timestamp_num r = t) (array_sort timestamp_desc xs)
       = filter (\<lambda>r. timestamp_num r = t) xs"
proof (induction xs)
  case Nil
  then show ?case by (simp add: array_sort_def)
next
  case (Cons x xs)
  have "list_all has_timestamp (array_sort timestamp_desc xs)"
    using Cons.prems by (simp add: list_all_iff set_array_sort)
  then have "filter (\<lambda>r. timestamp_num r = t) (sort_insert timestamp_desc x (array_sort timestamp_desc xs))
      = filter (\<lambda>r. timestamp_num r = t) (x # array_sort timestamp_desc xs)"
    using Cons.prems filter_sort_insert by simp
  then show ?case using Cons by (simp add: array_sort_def)
qed

lemma array_sort_newest_first:
  "list_all has_timestamp xs \<Longrightarrow> newest_first_stable xs (array_sort timestamp_desc xs)"
  by (simp add: newest_first_stable_def mset_array_sort sorted_array_sort filter_array_sort)

text \<open>
  C4. On an engine that opens and reads, and when the matching reports carry numeric
  timestamps, \<^verbatim>\<open>fetchReportsForSpecificDoctor\<close> resolves with exactly the stored reports whose
  \<^verbatim>\<open>targetDoctorId\<close> is the given id (as a multiset: none missing, none added), ordered by
  timestamp descending, reports of equal timestamp in their store order; and
  \<^verbatim>\<open>fetchPatientReports\<close> does the same for \<^verbatim>\<open>userId\<close>.
\<close>

theorem index_query_newest_first:
  "(fault env \<noteq> Open_fails \<and> fault env \<noteq> Read_fails \<and>
    (\<forall>r\<in>set (STORE_REPORTS env). js_prop r ''targetDoctorId'' = Str doctorId \<longrightarrow> has_timestamp r) \<longrightarrow>
      (\<exists>rs. fetchReportsForSpecificDoctor env doctorId = Resolved rs \<and>
            newest_first_stable
              (filter (\<lambda>r. js_prop r ''targetDoctorId'' = Str doctorId) (STORE_REPORTS env)) rs)) \<and>
   (fault env \<noteq> Open_fails \<and> fault env \<noteq> Read_fails \<and>
    (\<forall>r\<in>set (STORE_REPORTS env). js_prop r ''userId'' = Str userId \<longrightarrow> has_timestamp r) \<longrightarrow>
      (\<exists>rs. fetchPatientReports env userId = Resolved rs \<and>
            newest_first_stable
              (filter (\<lambda>r. js_prop r ''userId'' = Str userId) (STORE_REPORTS env)) rs))"
proof (intro conjI impI)
  assume a: "fault env \<noteq> Open_fails \<and> fault env \<noteq> Read_fails \<and>
    (\<forall>r\<in>set (STORE_REPORTS env). js_prop r ''targetDoctorId'' = Str doctorId \<longrightarrow> has_timestamp r)"
  then have "list_all has_timestamp (index_getAll ''targetDoctorId'' (Str doctorId) (STORE_REPORTS env))"
    by (simp add: index_getAll_def list_all_iff)
  then have "newest_first_stable (index_getAll ''targetDoctorId'' (Str doctorId) (STORE_REPORTS env))
      (array_sort timestamp_desc (index_getAll ''targetDoctorId'' (Str doctorId) (STORE_REPORTS env)))"
    by (rule array_sort_newest_first)
  then show "\<exists>rs. fetchReportsForSpecificDoctor env doctorId = Resolved rs \<and>
            newest_first_stable
              (filter (\<lambda>r. js_prop r ''targetDoctorId'' = Str doctorId) (STORE_REPORTS env)) rs"
    using a by (simp add: fetchReportsForSpecificDoctor_def openDB_def index_getAll_def)
next
  assume a: "fault env \<noteq> Open_fails \<and> fault env \<noteq> Read_fails \<and>
    (\<forall>r\<in>set (STORE_REPORTS env). js_prop r ''userId'' = Str userId \<longrightarrow> has_timestamp r)"
  then have "list_all has_timestamp (index_getAll ''userId'' (Str userId) (STORE_REPORTS env))"
    by (simp add: index_getAll_def list_all_iff)
  then have "newest_first_stable (index_getAll ''userId'' (Str userId) (STORE_REPORTS env))
      (array_sort timestamp_desc (index_getAll ''userId'' (Str userId) (STORE_REPORTS env)))"
    by (rule array_sort_newest_first)
  then show "\<exists>rs. fetchPatientReports env userId = Resolved rs \<and>
            newest_first_stable
              (filter (\<lambda>r. js_prop r ''userId'' = Str userId) (STORE_REPORTS env)) rs"
    using a by (simp add: fetchPatientReports_def openDB_def index_getAll_def)
qed


theorem index_query_newest_first_witness:
  "fault ex_db \<noteq> Open_fails \<and> fault ex_db \<noteq> Read_fails \<and>
   list_all has_timestamp
     (filter (\<lambda>r. js_prop r ''targetDoctorId'' = Str ''user_1d'') (STORE_REPORTS ex_db)) \<and>
   list_all has_timestamp
     (filter (\<lambda>r. js_prop r ''userId'' = Str ''user_2p'') (STORE_REPORTS ex_db)) \<and>
   fetchReportsForSpecificDoctor ex_db ''user_1d''
     = Resolved [ex_report ''r2'' ''user_1d'' 200, ex_report ''r1'' ''user_1d'' 100,
                 ex_report ''r3'' ''user_1d'' 100] \<and>
   newest_first_stable
     (filter (\<lambda>r. js_prop r ''targetDoctorId'' = Str ''user_1d'') (STORE_REPORTS ex_db))
     [ex_report ''r2'' ''user_1d'' 200, ex_report ''r1'' ''user_1d'' 100,
      ex_report ''r3'' ''user_1d'' 100] \<and>
   fetchPatientReports ex_db ''user_2p''
     = Resolved [ex_report ''r4'' ''user_9d'' 300, ex_report ''r2'' ''user_1d'' 200,
                 ex_report ''r1'' ''user_1d'' 100, ex_report ''r3'' ''user_1d'' 100] \<and>
   newest_first_stable
     (filter (\<lambda>r. js_prop r ''userId'' = Str ''user_2p'') (STORE_REPORTS ex_db))
     [ex_report ''r4'' ''user_9d'' 300, ex_report ''r2'' ''user_1d'' 200,
      ex_report ''r1'' ''user_1d'' 100, ex_report ''r3'' ''user_1d'' 100]"
proof -
  have f: "fault ex_db \<noteq> Open_fails \<and> fault ex_db \<noteq> Read_fails" by (simp add: ex_db_def)
  have n1: "\<forall>r\<in>set (STORE_REPORTS ex_db). js_prop r ''targetDoctorId'' = Str ''user_1d'' \<longrightarrow> has_timestamp r"
    by (simp add: ex_db_def ex_report_def has_timestamp_def js_prop_def)
  have n2: "\<forall>r\<in>set (STORE_REPORTS ex_db). js_prop r ''userId'' = Str ''user_2p'' \<longrightarrow> has_timestamp r"
    by (simp add: ex_db_def ex_report_def has_timestamp_def js_prop_def)
  have e1: "fetchReportsForSpecificDoctor ex_db ''user_1d''
     = Resolved [ex_report ''r2'' ''user_1d'' 200, ex_report ''r1'' ''user_1d'' 100,
                 ex_report ''r3'' ''user_1d'' 100]"
    by (simp add: fetchReportsForSpecificDoctor_def openDB_def ex_db_def index_getAll_def
        array_sort_def sorts_after_def timestamp_desc_def js_prop_def ex_report_def)
  have e2: "fetchPatientReports ex_db ''user_2p''
     = Resolved [ex_report ''r4'' ''user_9d'' 300, ex_report ''r2'' ''user_1d'' 200,
                 ex_report ''r1'' ''user_1d'' 100, ex_report ''r3'' ''user_1d'' 100]"
    by (simp add: fetchPatientReports_def openDB_def ex_db_def index_getAll_def
        array_sort_def sorts_after_def timestamp_desc_def js_prop_def ex_report_def)
  have l1: "list_all has_timestamp
     (filter (\<lambda>r. js_prop r ''targetDoctorId'' = Str ''user_1d'') (STORE_REPORTS ex_db))"
    using n1 by (simp add: list_all_iff)
  have l2: "list_all has_timestamp
     (filter (\<lambda>r. js_prop r ''userId'' = Str ''user_2p'') (STORE_REPORTS ex_db))"
    using n2 by (simp add: list_all_iff)
  have "newest_first_stable
     (filter (\<lambda>r. js_prop r ''targetDoctorId'' = Str ''user_1d'') (STORE_REPORTS ex_db))
     [ex_report ''r2'' ''user_1d'' 200, ex_report ''r1'' ''user_1d'' 100,
      ex_report ''r3'' ''user_1d'' 100] \<and>
   newest_first_stable
     (filter (\<lambda>r. js_prop r ''userId'' = Str ''user_2p'') (STORE_REPORTS ex_db))
     [ex_report ''r4'' ''user_9d'' 300, ex_report ''r2'' ''user_1d'' 200,
      ex_report ''r1'' ''user_1d'' 100, ex_report ''r3'' ''user_1d'' 100]"
    using f n1 n2 index_query_newest_first [of ex_db "''user_1d''" "''user_2p''"]
    by (simp add: e1 e2)
  then show ?thesis using f l1 l2 e1 e2 by simp
qed

section \<open>The optimistic status update\<close>

lemma updateReportStatus_state:
  "state (updateReportStatus env st ident status notes) =
     st\<lparr>reports := map (\<lambda>r. if js_prop r ''id'' = Str ident
                              then r(''status'' \<mapsto> status, ''doctorNotes'' \<mapsto> optional notes)
                              else r) (reports st)\<rparr>"
  by (simp add: updateReportStatus_def Let_def split: prod.splits promise.splits)

lemma updateReportStatus_events:
  "\<exists>rest. events (updateReportStatus env st ident status notes) =
      Set_state (state (updateReportStatus env st ident status notes))
      # Call_updateReportInDb ident [''status'' \<mapsto> status, ''doctorNotes'' \<mapsto> optional notes]
      # rest"
  by (simp add: updateReportStatus_def Let_def split: prod.splits promise.splits)

lemma updateReportStatus_db:
  "db (updateReportStatus env st ident status notes) =
     snd (updateReportInDb env ident [''status'' \<mapsto> status, ''doctorNotes'' \<mapsto> optional notes])"
  by (cases "updateReportInDb env ident [''status'' \<mapsto> status, ''doctorNotes'' \<mapsto> optional notes]")
     (simp add: updateReportStatus_def Let_def split: promise.splits)

lemma updateReportStatus_rejected:
  assumes "fst (updateReportInDb env ident [''status'' \<mapsto> status, ''doctorNotes'' \<mapsto> optional notes])
             = Rejected e"
  shows "settled (updateReportStatus env st ident status notes) = Resolved () \<and>
         last (events (updateReportStatus env st ident status notes))
           = Console_error ''Failed to update report in DB'' e"
  using assms
  by (cases "updateReportInDb env ident [''status'' \<mapsto> status, ''doctorNotes'' \<mapsto> optional notes]")
     (simp add: updateReportStatus_def Let_def)

text \<open>
  C5. \<^verbatim>\<open>updateReportStatus(id, status, notes)\<close> first publishes the state in which every
  report with that id has the new status and notes, and only then calls
  \<^verbatim>\<open>updateReportInDb\<close>; that published state is the state the action ends with, whatever
  database \<open>env'\<close> it runs against. In it the collection has the same length, a report
  with the id has the new \<^verbatim>\<open>status\<close> and \<^verbatim>\<open>doctorNotes\<close> and all its other properties as
  before, a report with another id is unchanged, and nothing else in the state changes.
  When the store write is rejected the action still resolves, its last act is the console
  message, and the collection is not rolled back.
\<close>

theorem updateReportStatus_optimistic:
  assumes "out = updateReportStatus env st ident status notes"
  shows "(\<exists>rest. events out =
            Set_state (state out)
            # Call_updateReportInDb ident [''status'' \<mapsto> status, ''doctorNotes'' \<mapsto> optional notes]
            # rest) \<and>
         state out = st\<lparr>reports := reports (state out)\<rparr> \<and>
         state out = state (updateReportStatus env' st ident status notes) \<and>
         length (reports (state out)) = length (reports st) \<and>
         (\<forall>i<length (reports st).
            (js_prop (reports st ! i) ''id'' = Str ident \<longrightarrow>
               (reports (state out) ! i) ''status'' = Some status \<and>
               (reports (state out) ! i) ''doctorNotes'' = Some (optional notes) \<and>
               (\<forall>f. f \<noteq> ''status'' \<and> f \<noteq> ''doctorNotes'' \<longrightarrow>
                    (reports (state out) ! i) f = (reports st ! i) f)) \<and>
            (js_prop (reports st ! i) ''id'' \<noteq> Str ident \<longrightarrow>
               reports (state out) ! i = reports st ! i)) \<and>
         (\<forall>e. fst (updateReportInDb env ident
                     [''status'' \<mapsto> status, ''doctorNotes'' \<mapsto> optional notes]) = Rejected e \<longrightarrow>
              settled out = Resolved () \<and>
              last (events out) = Console_error ''Failed to update report in DB'' e)"
proof (intro conjI)
  show "\<exists>rest. events out =
            Set_state (state out)
            # Call_updateReportInDb ident [''status'' \<mapsto> status, ''doctorNotes'' \<mapsto> optional notes]
            # rest"
    unfolding assms by (rule updateReportStatus_events)
  show "state out = st\<lparr>reports := reports (state out)\<rparr>"
    by (simp add: assms updateReportStatus_state)
  show "state out = state (updateReportStatus env' st ident status notes)"
    by (simp add: assms updateReportStatus_state)
  show "length (reports (state out)) = length (reports st)"
    by (simp add: assms updateReportStatus_state)
  show "\<forall>i<length (reports st).
            (js_prop (reports st ! i) ''id'' = Str ident \<longrightarrow>
               (reports (state out) ! i) ''status'' = Some status \<and>
               (reports (state out) ! i) ''doctorNotes'' = Some (optional notes) \<and>
               (\<forall>f. f \<noteq> ''status'' \<and> f \<noteq> ''doctorNotes'' \<longrightarrow>
                    (reports (state out) ! i) f = (reports st ! i) f)) \<and>
            (js_prop (reports st ! i) ''id'' \<noteq> Str ident \<longrightarrow>
               reports (state out) ! i = reports st ! i)"
    by (simp add: assms updateReportStatus_state)
  show "\<forall>e. fst (updateReportInDb env ident
                     [''status'' \<mapsto> status, ''doctorNotes'' \<mapsto> optional notes]) = Rejected e \<longrightarrow>
              settled out = Resolved () \<and>
              last (events out) = Console_error ''Failed to update report in DB'' e"
    unfolding assms using updateReportStatus_rejected by blast
qed

text \<open>The theorem for a doctor who reviews r1 while write requests fail.\<close>

theorem updateReportStatus_optimistic_witness:
  "fst (updateReportInDb (ex_db\<lparr>fault := Write_fails\<rparr>) ''r1''
          [''status'' \<mapsto> Str ''reviewed'', ''doctorNotes'' \<mapsto> optional (Some ''ok'')])
     = Rejected (DOMException ''UnknownError'') \<and>
   settled (updateReportStatus (ex_db\<lparr>fault := Write_fails\<rparr>) ex_state ''r1'' (Str ''reviewed'') (Some ''ok''))
     = Resolved () \<and>
   map (\<lambda>r. (js_prop r ''id'', js_prop r ''status'', js_prop r ''doctorNotes''))
       (reports (state (updateReportStatus (ex_db\<lparr>fault := Write_fails\<rparr>) ex_state ''r1''
                          (Str ''reviewed'') (Some ''ok''))))
     = [(Str ''r2'', Str ''pending'', Undefined), (Str ''r1'', Str ''reviewed'', Str ''ok'')] \<and>
   map (\<lambda>r. (js_prop r ''id'', js_prop r ''status'', js_prop r ''doctorNotes''))
       (STORE_REPORTS (db (updateReportStatus (ex_db\<lparr>fault := Write_fails\<rparr>) ex_state ''r1''
                          (Str ''reviewed'') (Some ''ok''))))
     = [(Str ''r1'', Str ''pending'', Undefined), (Str ''r2'', Str ''pending'', Undefined),
        (Str ''r3'', Str ''pending'', Undefined), (Str ''r4'', Str ''pending'', Undefined)]"
proof -
  let ?env = "ex_db\<lparr>fault := Write_fails\<rparr>"
  let ?out = "updateReportStatus ?env ex_state ''r1'' (Str ''reviewed'') (Some ''ok'')"
  have w: "fst (updateReportInDb ?env ''r1''
          [''status'' \<mapsto> Str ''reviewed'', ''doctorNotes'' \<mapsto> optional (Some ''ok'')])
     = Rejected (DOMException ''UnknownError'')"
    by (simp add: updateReportInDb_def openDB_def ex_db_def ex_report_def store_get_def
        store_put_def spread_def js_prop_def)
  have d: "db ?out = ?env"
    by (simp add: updateReportStatus_db updateReportInDb_def openDB_def ex_db_def ex_report_def
        store_get_def store_put_def spread_def js_prop_def)
  have s: "map (\<lambda>r. (js_prop r ''id'', js_prop r ''status'', js_prop r ''doctorNotes''))
       (STORE_REPORTS ?env)
     = [(Str ''r1'', Str ''pending'', Undefined), (Str ''r2'', Str ''pending'', Undefined),
        (Str ''r3'', Str ''pending'', Undefined), (Str ''r4'', Str ''pending'', Undefined)]"
    by (simp add: ex_db_def ex_report_def js_prop_def)
  note t = updateReportStatus_optimistic [OF refl, of ?env ex_state
      "''r1''" "Str ''reviewed''" "Some ''ok''" ex_db]
  have rj: "\<forall>e. fst (updateReportInDb ?env ''r1''
                     [''status'' \<mapsto> Str ''reviewed'', ''doctorNotes'' \<mapsto> optional (Some ''ok'')])
                 = Rejected e \<longrightarrow>
              settled ?out = Resolved () \<and>
              last (events ?out) = Console_error ''Failed to update report in DB'' e"
    using t by (elim conjE)
  have st: "settled ?out = Resolved ()"
    using rj w by blast
  have same: "state ?out = state (updateReportStatus ex_db ex_state ''r1'' (Str ''reviewed'') (Some ''ok''))"
    using t by (elim conjE)
  have mem: "map (\<lambda>r. (js_prop r ''id'', js_prop r ''status'', js_prop r ''doctorNotes''))
       (reports (state (updateReportStatus ex_db ex_state ''r1'' (Str ''reviewed'') (Some ''ok''))))
     = [(Str ''r2'', Str ''pending'', Undefined), (Str ''r1'', Str ''reviewed'', Str ''ok'')]"
    by (simp add: updateReportStatus_state ex_state_def ex_report_def js_prop_def)
  show ?thesis using w st mem s by (simp add: same d)
qed

section \<open>Loading reports when the fetch fails\<close>

lemma loadReports_fetch_PATIENT:
  "uid \<noteq> [] \<Longrightarrow> loadReports_fetch env PATIENT (Some uid)
     = ([Call_fetchPatientReports uid], fetchPatientReports env uid)"
  by (simp add: loadReports_fetch_def)

lemma loadReports_fetch_DOCTOR:
  "uid \<noteq> [] \<Longrightarrow> loadReports_fetch env DOCTOR (Some uid)
     = ([Call_fetchReportsForSpecificDoctor uid], fetchReportsForSpecificDoctor env uid)"
  by (simp add: loadReports_fetch_def)

lemma loadReports_fetch_none:
  "\<not> truthy uid \<or> rl = GUEST \<Longrightarrow> loadReports_fetch env rl uid = ([], Resolved [])"
  by (auto simp: loadReports_fetch_def)

text \<open>
  The two paths on which the fetch settles. In a session with an identity, when the fetch
  that \<^verbatim>\<open>loadReports\<close> issues for the role is rejected, the action still resolves (the error
  is caught and written to the console, not passed on) and the state it leaves is the state
  before the call with \<^verbatim>\<open>isLoading\<close> false, so the held reports are exactly the earlier
  ones; when the fetch resolves, or the role calls for none, the reports are replaced and
  \<^verbatim>\<open>isLoading\<close> is false as well. The fetch is rejected only when a read request fails.
\<close>

lemma loadReports_fetch_settled:
  assumes "currentUserId st = Some uid" and "uid \<noteq> []"
  shows "(currentUserRole st = PATIENT \<and> fetchPatientReports env uid = Rejected e
          \<or> currentUserRole st = DOCTOR \<and> fetchReportsForSpecificDoctor env uid = Rejected e \<longrightarrow>
            settled (loadReports env st) = Resolved () \<and>
            state (loadReports env st) = st\<lparr>isLoading := False\<rparr> \<and>
            reports (state (loadReports env st)) = reports st \<and>
            isLoading (state (loadReports env st)) = False \<and>
            last (events (loadReports env st)) = Set_state (st\<lparr>isLoading := False\<rparr>) \<and>
            Console_error ''Failed to load reports'' e \<in> set (events (loadReports env st))) \<and>
         (currentUserRole st = PATIENT \<and> fetchPatientReports env uid = Resolved rs
          \<or> currentUserRole st = DOCTOR \<and> fetchReportsForSpecificDoctor env uid = Resolved rs \<longrightarrow>
            settled (loadReports env st) = Resolved () \<and>
            state (loadReports env st) = st\<lparr>reports := rs, isLoading := False\<rparr> \<and>
            isLoading (state (loadReports env st)) = False) \<and>
         (currentUserRole st = GUEST \<longrightarrow>
            settled (loadReports env st) = Resolved () \<and>
            state (loadReports env st) = st\<lparr>reports := [], isLoading := False\<rparr> \<and>
            isLoading (state (loadReports env st)) = False)"
  using assms
  by (auto simp: loadReports_def loadReports_fetch_PATIENT loadReports_fetch_DOCTOR
      loadReports_fetch_none Let_def)

text \<open>The lemma for the doctor of the sample database, once with failing reads and once
  with a working engine.\<close>

lemma loadReports_fetch_settled_example:
  "currentUserId ex_state = Some ''user_1d'' \<and> ''user_1d'' \<noteq> [] \<and>
   currentUserRole ex_state = DOCTOR \<and>
   fetchReportsForSpecificDoctor (ex_db\<lparr>fault := Read_fails\<rparr>) ''user_1d''
     = Rejected (DOMException ''UnknownError'') \<and>
   settled (loadReports (ex_db\<lparr>fault := Read_fails\<rparr>) ex_state) = Resolved () \<and>
   reports (state (loadReports (ex_db\<lparr>fault := Read_fails\<rparr>) ex_state)) = reports ex_state \<and>
   isLoading (state (loadReports (ex_db\<lparr>fault := Read_fails\<rparr>) ex_state)) = False \<and>
   fetchReportsForSpecificDoctor ex_db ''user_1d''
     = Resolved [ex_report ''r2'' ''user_1d'' 200, ex_report ''r1'' ''user_1d'' 100,
                 ex_report ''r3'' ''user_1d'' 100] \<and>
   state (loadReports ex_db ex_state)
     = ex_state\<lparr>reports := [ex_report ''r2'' ''user_1d'' 200, ex_report ''r1'' ''user_1d'' 100,
                              ex_report ''r3'' ''user_1d'' 100],
                isLoading := False\<rparr>"
proof -
  have i: "currentUserId ex_state = Some ''user_1d''" and r: "currentUserRole ex_state = DOCTOR"
    by (simp_all add: ex_state_def)
  have n: "''user_1d'' \<noteq> []" by simp
  have f: "fetchReportsForSpecificDoctor (ex_db\<lparr>fault := Read_fails\<rparr>) ''user_1d''
     = Rejected (DOMException ''UnknownError'')"
    by (simp add: fetchReportsForSpecificDoctor_def openDB_def ex_db_def)
  have g: "fetchReportsForSpecificDoctor ex_db ''user_1d''
     = Resolved [ex_report ''r2'' ''user_1d'' 200, ex_report ''r1'' ''user_1d'' 100,
                 ex_report ''r3'' ''user_1d'' 100]"
    by (simp add: fetchReportsForSpecificDoctor_def openDB_def ex_db_def index_getAll_def
        array_sort_def sorts_after_def timestamp_desc_def js_prop_def ex_report_def)
  show ?thesis
    using i r f g
      loadReports_fetch_settled [OF i n, of "ex_db\<lparr>fault := Read_fails\<rparr>"
         "DOMException ''UnknownError''" "[]"]
      loadReports_fetch_settled [OF i n, of ex_db "DOMException ''UnknownError''"
         "[ex_report ''r2'' ''user_1d'' 200, ex_report ''r1'' ''user_1d'' 100,
           ex_report ''r3'' ''user_1d'' 100]"]
    by simp
qed

text \<open>
  The failure that is left out above is a database that cannot be opened. Both fetches
  run in \<^verbatim>\<open>openDB().then(...)\<close> with no handler for the rejection, so their promise never
  settles; \<^verbatim>\<open>loadReports\<close> then never resumes from its \<^verbatim>\<open>await\<close>, neither \<^verbatim>\<open>catch\<close> nor
  \<^verbatim>\<open>finally\<close> runs, and \<^verbatim>\<open>isLoading\<close> stays true.
\<close>

lemma loadReports_open_fails:
  assumes "fault env = Open_fails" and "currentUserId st = Some uid" and "uid \<noteq> []"
    and "currentUserRole st = PATIENT \<or> currentUserRole st = DOCTOR"
  shows "settled (loadReports env st) = Pending \<and>
         state (loadReports env st) = st\<lparr>isLoading := True\<rparr> \<and>
         isLoading (state (loadReports env st)) = True"
  using assms
  by (auto simp: loadReports_def loadReports_fetch_PATIENT loadReports_fetch_DOCTOR
      fetchPatientReports_def fetchReportsForSpecificDoctor_def openDB_def Let_def)

text \<open>
  C6. The doctor of the sample database loads reports while the database cannot be
  opened: the fetch stays pending, \<^verbatim>\<open>loadReports\<close> stays pending, the last state published
  is the one with \<^verbatim>\<open>isLoading\<close> true, and nothing is written to the console. The flag is
  not cleared on this failure. On the same database \<^verbatim>\<open>updateReportInDb\<close> and \<^verbatim>\<open>saveReportToDb\<close>,
  which await the connection or catch its failure, do reject.
\<close>

theorem loadReports_open_failure_keeps_loading:
  "currentUserRole ex_state = DOCTOR \<and> currentUserId ex_state = Some ''user_1d'' \<and>
   isLoading ex_state = False \<and>
   fetchReportsForSpecificDoctor (ex_db\<lparr>fault := Open_fails\<rparr>) ''user_1d'' = Pending \<and>
   settled (loadReports (ex_db\<lparr>fault := Open_fails\<rparr>) ex_state) = Pending \<and>
   state (loadReports (ex_db\<lparr>fault := Open_fails\<rparr>) ex_state) = ex_state\<lparr>isLoading := True\<rparr> \<and>
   isLoading (state (loadReports (ex_db\<lparr>fault := Open_fails\<rparr>) ex_state)) = True \<and>
   events (loadReports (ex_db\<lparr>fault := Open_fails\<rparr>) ex_state)
     = [Set_state (ex_state\<lparr>isLoading := True\<rparr>), Call_fetchReportsForSpecificDoctor ''user_1d''] \<and>
   fst (updateReportInDb (ex_db\<lparr>fault := Open_fails\<rparr>) ''r1'' [''status'' \<mapsto> Str ''reviewed''])
     = Rejected (Error ''Failed to open database'') \<and>
   fst (saveReportToDb (ex_db\<lparr>fault := Open_fails\<rparr>) ''2024-06-30T10:00''
          (ex_report ''r5'' ''user_1d'' 500))
     = Rejected (Error ''Failed to open database'')"
proof -
  have i: "currentUserRole ex_state = DOCTOR" "currentUserId ex_state = Some ''user_1d''"
    "isLoading ex_state = False"
    by (simp_all add: ex_state_def)
  have o: "fault (ex_db\<lparr>fault := Open_fails\<rparr>) = Open_fails" by simp
  have f: "fetchReportsForSpecificDoctor (ex_db\<lparr>fault := Open_fails\<rparr>) ''user_1d'' = Pending"
    by (simp add: fetchReportsForSpecificDoctor_def openDB_def)
  have l: "loadReports (ex_db\<lparr>fault := Open_fails\<rparr>) ex_state =
      \<lparr>settled = Pending, state = ex_state\<lparr>isLoading := True\<rparr>,
       db = ex_db\<lparr>fault := Open_fails\<rparr>,
       events = [Set_state (ex_state\<lparr>isLoading := True\<rparr>),
                 Call_fetchReportsForSpecificDoctor ''user_1d'']\<rparr>"
    using i by (simp add: loadReports_def loadReports_fetch_DOCTOR f Let_def)
  have u: "fst (updateReportInDb (ex_db\<lparr>fault := Open_fails\<rparr>) ''r1'' [''status'' \<mapsto> Str ''reviewed''])
     = Rejected (Error ''Failed to open database'')"
    by (simp add: updateReportInDb_def openDB_def)
  have s: "fst (saveReportToDb (ex_db\<lparr>fault := Open_fails\<rparr>) ''2024-06-30T10:00''
          (ex_report ''r5'' ''user_1d'' 500))
     = Rejected (Error ''Failed to open database'')"
    by (simp add: saveReportToDb_def performTransaction_def openDB_def)
  show ?thesis using i f u s by (simp add: l)
qed

section \<open>Loading reports without an identity\<close>

text \<open>
  C9 (as amended). The identity counts as missing when it is \<^verbatim>\<open>null\<close> or the empty string.
  With a missing identity and the role DOCTOR, \<^verbatim>\<open>loadReports\<close> does not return early: it
  publishes \<^verbatim>\<open>isLoading\<close> true, then the empty collection, then \<^verbatim>\<open>isLoading\<close> false,
  calls no service and resolves. With a missing identity and any other role it does
  nothing at all; and it does nothing at all only in that case.
\<close>

theorem loadReports_without_identity:
  "(currentUserRole st = DOCTOR \<and> (currentUserId st = None \<or> currentUserId st = Some []) \<longrightarrow>
      loadReports env st =
        \<lparr>settled = Resolved (), state = st\<lparr>reports := [], isLoading := False\<rparr>, db = env,
         events = [Set_state (st\<lparr>isLoading := True\<rparr>),
                   Set_state (st\<lparr>reports := [], isLoading := True\<rparr>),
                   Set_state (st\<lparr>reports := [], isLoading := False\<rparr>)]\<rparr>) \<and>
   ((currentUserId st = None \<or> currentUserId st = Some []) \<and> currentUserRole st \<noteq> DOCTOR \<longrightarrow>
      loadReports env st = \<lparr>settled = Resolved (), state = st, db = env, events = []\<rparr>) \<and>
   (events (loadReports env st) = [] \<longrightarrow>
      (currentUserId st = None \<or> currentUserId st = Some []) \<and> currentUserRole st \<noteq> DOCTOR)"
proof (intro conjI impI)
  assume a: "currentUserRole st = DOCTOR \<and> (currentUserId st = None \<or> currentUserId st = Some [])"
  then have "\<not> truthy (currentUserId st)" by auto
  then show "loadReports env st =
        \<lparr>settled = Resolved (), state = st\<lparr>reports := [], isLoading := False\<rparr>, db = env,
         events = [Set_state (st\<lparr>isLoading := True\<rparr>),
                   Set_state (st\<lparr>reports := [], isLoading := True\<rparr>),
                   Set_state (st\<lparr>reports := [], isLoading := False\<rparr>)]\<rparr>"
    using a by (simp add: loadReports_def loadReports_fetch_none Let_def)
next
  assume "(currentUserId st = None \<or> currentUserId st = Some []) \<and> currentUserRole st \<noteq> DOCTOR"
  then show "loadReports env st = \<lparr>settled = Resolved (), state = st, db = env, events = []\<rparr>"
    by (auto simp: loadReports_def)
next
  assume e: "events (loadReports env st) = []"
  have "\<not> truthy (currentUserId st) \<and> currentUserRole st \<noteq> DOCTOR"
  proof (rule ccontr)
    assume "\<not> (\<not> truthy (currentUserId st) \<and> currentUserRole st \<noteq> DOCTOR)"
    then have "events (loadReports env st) \<noteq> []"
      by (cases "loadReports_fetch env (currentUserRole st) (currentUserId st)")
         (auto simp: loadReports_def Let_def split: promise.splits)
    then show False using e by simp
  qed
  then show "currentUserId st = None \<or> currentUserId st = Some []"
    and "currentUserRole st \<noteq> DOCTOR"
    by (cases "currentUserId st"; simp)+
qed

theorem loadReports_without_identity_witness:
  "currentUserRole (ex_state\<lparr>currentUserId := None\<rparr>) = DOCTOR \<and>
   currentUserId (ex_state\<lparr>currentUserId := None\<rparr>) = None \<and>
   reports (ex_state\<lparr>currentUserId := None\<rparr>) \<noteq> [] \<and>
   settled (loadReports (ex_db\<lparr>fault := Open_fails\<rparr>) (ex_state\<lparr>currentUserId := None\<rparr>)) = Resolved () \<and>
   reports (state (loadReports (ex_db\<lparr>fault := Open_fails\<rparr>) (ex_state\<lparr>currentUserId := None\<rparr>))) = [] \<and>
   isLoading (state (loadReports (ex_db\<lparr>fault := Open_fails\<rparr>) (ex_state\<lparr>currentUserId := None\<rparr>))) = False \<and>
   currentUserId ex_guest = Some [] \<and> currentUserRole ex_guest \<noteq> DOCTOR \<and>
   loadReports ex_db ex_guest = \<lparr>settled = Resolved (), state = ex_guest, db = ex_db, events = []\<rparr>"
proof -
  let ?st = "ex_state\<lparr>currentUserId := None\<rparr>"
  let ?env = "ex_db\<lparr>fault := Open_fails\<rparr>"
  have a: "currentUserRole ?st = DOCTOR"
    and b: "currentUserId ?st = None"
    and c: "reports ?st \<noteq> []"
    and d: "currentUserId ex_guest = Some []" and e: "currentUserRole ex_guest \<noteq> DOCTOR"
    by (simp_all add: ex_state_def ex_guest_def)
  have "loadReports ?env ?st =
        \<lparr>settled = Resolved (), state = ?st\<lparr>reports := [], isLoading := False\<rparr>, db = ?env,
         events = [Set_state (?st\<lparr>isLoading := True\<rparr>),
                   Set_state (?st\<lparr>reports := [], isLoading := True\<rparr>),
                   Set_state (?st\<lparr>reports := [], isLoading := False\<rparr>)]\<rparr>"
    using loadReports_without_identity [of ?st ?env, THEN conjunct1] a b by blast
  then have p1: "settled (loadReports ?env ?st) = Resolved () \<and>
      reports (state (loadReports ?env ?st)) = [] \<and> isLoading (state (loadReports ?env ?st)) = False"
    by simp
  have p2: "loadReports ex_db ex_guest = \<lparr>settled = Resolved (), state = ex_guest, db = ex_db, events = []\<rparr>"
    using loadReports_without_identity [of ex_guest ex_db, THEN conjunct2, THEN conjunct1] d e by blast
  show ?thesis using a b c d e p1 p2 by blast
qed

text \<open>The call is also a no-op when the id is not \<^verbatim>\<open>null\<close> but the empty string, which
  \<^verbatim>\<open>!currentUserId\<close> treats alike.\<close>

theorem loadReports_without_identity_counterexample:
  "currentUserId ex_guest \<noteq> None \<and>
   loadReports ex_db ex_guest = \<lparr>settled = Resolved (), state = ex_guest, db = ex_db, events = []\<rparr>"
proof -
  have "currentUserId ex_guest = Some []" and "currentUserRole ex_guest = GUEST"
    by (simp_all add: ex_guest_def)
  then show ?thesis by (simp add: loadReports_def)
qed

section \<open>Routing fields under a status update\<close>

lemma updateReportInDb_cases:
  "snd (updateReportInDb env reportId updates) = env \<or>
   (\<exists>data. store_get ''id'' (Str reportId) (STORE_REPORTS env) = Some data \<and>
      valid_key (js_prop (spread data updates) ''id'') \<and>
      updateReportInDb env reportId updates =
        (Resolved (), env\<lparr>STORE_REPORTS := store_insert ''id'' (spread data updates) (STORE_REPORTS env)\<rparr>))"
  by (auto simp: updateReportInDb_def openDB_def store_put_def Let_def split: option.splits)

lemma updateReportInDb_routing:
  assumes wf: "wf_store ''id'' (STORE_REPORTS env)"
    and u: "updates ''id'' = None" "updates ''userId'' = None" "updates ''targetDoctorId'' = None"
  shows "map (\<lambda>r. (r ''id'', r ''userId'', r ''targetDoctorId''))
             (STORE_REPORTS (snd (updateReportInDb env reportId updates)))
         = map (\<lambda>r. (r ''id'', r ''userId'', r ''targetDoctorId'')) (STORE_REPORTS env)"
proof -
  consider (same) "snd (updateReportInDb env reportId updates) = env"
    | (put) data where "store_get ''id'' (Str reportId) (STORE_REPORTS env) = Some data"
        "updateReportInDb env reportId updates =
           (Resolved (), env\<lparr>STORE_REPORTS := store_insert ''id'' (spread data updates) (STORE_REPORTS env)\<rparr>)"
    using updateReportInDb_cases [of env reportId updates] by blast
  then show ?thesis
  proof cases
    case same
    then show ?thesis by simp
  next
    case put
    have k: "js_prop (spread data updates) ''id'' = Str reportId"
      using store_get_Some_key [OF put(1)] u(1) by (simp add: spread_def map_add_def js_prop_def)
    have "map (\<lambda>r. (r ''id'', r ''userId'', r ''targetDoctorId''))
             (store_insert ''id'' (spread data updates) (STORE_REPORTS env))
          = map (\<lambda>r. (r ''id'', r ''userId'', r ''targetDoctorId'')) (STORE_REPORTS env)"
    proof (rule store_insert_map [OF wf])
      show "store_get ''id'' (js_prop (spread data updates) ''id'') (STORE_REPORTS env) = Some data"
        using put(1) k by simp
      show "(spread data updates ''id'', spread data updates ''userId'', spread data updates ''targetDoctorId'')
            = (data ''id'', data ''userId'', data ''targetDoctorId'')"
        using u by (simp add: spread_def map_add_def)
    qed
    then show ?thesis using put(2) by simp
  qed
qed

text \<open>
  C8. \<^verbatim>\<open>updateReportStatus\<close> leaves \<^verbatim>\<open>id\<close>, \<^verbatim>\<open>userId\<close> and \<^verbatim>\<open>targetDoctorId\<close> of every report as
  they were, position by position, in the in-memory collection and, for a store that
  satisfies the store invariant, in the \<^verbatim>\<open>reports\<close> store; so does the merge-update with
  only \<^verbatim>\<open>status\<close> and \<^verbatim>\<open>doctorNotes\<close> that it issues.
\<close>

theorem routing_fields_unchanged:
  assumes "wf_store ''id'' (STORE_REPORTS env)"
  shows "map (\<lambda>r. (r ''id'', r ''userId'', r ''targetDoctorId''))
             (reports (state (updateReportStatus env st ident status notes)))
           = map (\<lambda>r. (r ''id'', r ''userId'', r ''targetDoctorId'')) (reports st) \<and>
         map (\<lambda>r. (r ''id'', r ''userId'', r ''targetDoctorId''))
             (STORE_REPORTS (db (updateReportStatus env st ident status notes)))
           = map (\<lambda>r. (r ''id'', r ''userId'', r ''targetDoctorId'')) (STORE_REPORTS env) \<and>
         map (\<lambda>r. (r ''id'', r ''userId'', r ''targetDoctorId''))
             (STORE_REPORTS (snd (updateReportInDb env ident
                [''status'' \<mapsto> status, ''doctorNotes'' \<mapsto> optional notes])))
           = map (\<lambda>r. (r ''id'', r ''userId'', r ''targetDoctorId'')) (STORE_REPORTS env)"
proof -
  have mem: "map (\<lambda>r. (r ''id'', r ''userId'', r ''targetDoctorId''))
             (reports (state (updateReportStatus env st ident status notes)))
           = map (\<lambda>r. (r ''id'', r ''userId'', r ''targetDoctorId'')) (reports st)"
    by (simp add: updateReportStatus_state)
  have sto: "map (\<lambda>r. (r ''id'', r ''userId'', r ''targetDoctorId''))
             (STORE_REPORTS (snd (updateReportInDb env ident
                [''status'' \<mapsto> status, ''doctorNotes'' \<mapsto> optional notes])))
           = map (\<lambda>r. (r ''id'', r ''userId'', r ''targetDoctorId'')) (STORE_REPORTS env)"
    by (rule updateReportInDb_routing [OF assms]) simp_all
  show ?thesis using mem sto by (simp add: updateReportStatus_db)
qed

text \<open>The last step of the end-to-end scenario: the doctor reviews r1.\<close>

theorem routing_fields_unchanged_witness:
  "wf_store ''id'' (STORE_REPORTS ex_db) \<and>
   settled (updateReportStatus ex_db ex_state ''r1'' (Str ''reviewed'') (Some ''Looks fine'')) = Resolved () \<and>
   map (\<lambda>r. (r ''id'', r ''userId'', r ''targetDoctorId''))
       (reports (state (updateReportStatus ex_db ex_state ''r1'' (Str ''reviewed'') (Some ''Looks fine''))))
     = [(Some (Str ''r2''), Some (Str ''user_2p''), Some (Str ''user_1d'')),
        (Some (Str ''r1''), Some (Str ''user_2p''), Some (Str ''user_1d''))] \<and>
   map (\<lambda>r. (r ''id'', r ''userId'', r ''targetDoctorId''))
       (STORE_REPORTS (db (updateReportStatus ex_db ex_state ''r1'' (Str ''reviewed'') (Some ''Looks fine''))))
     = [(Some (Str ''r1''), Some (Str ''user_2p''), Some (Str ''user_1d'')),
        (Some (Str ''r2''), Some (Str ''user_2p''), Some (Str ''user_1d'')),
        (Some (Str ''r3''), Some (Str ''user_2p''), Some (Str ''user_1d'')),
        (Some (Str ''r4''), Some (Str ''user_2p''), Some (Str ''user_9d''))] \<and>
   map (\<lambda>r. js_prop r ''status'')
       (STORE_REPORTS (db (updateReportStatus ex_db ex_state ''r1'' (Str ''reviewed'') (Some ''Looks fine''))))
     = [Str ''reviewed'', Str ''pending'', Str ''pending'', Str ''pending'']"
proof -
  let ?out = "updateReportStatus ex_db ex_state ''r1'' (Str ''reviewed'') (Some ''Looks fine'')"
  have wf: "wf_store ''id'' (STORE_REPORTS ex_db)"
    by (simp add: wf_store_def ex_db_def ex_report_def js_prop_def)
  note t = routing_fields_unchanged [OF wf, of ex_state "''r1''" "Str ''reviewed''" "Some ''Looks fine''"]
  have m0: "map (\<lambda>r. (r ''id'', r ''userId'', r ''targetDoctorId'')) (reports ex_state)
     = [(Some (Str ''r2''), Some (Str ''user_2p''), Some (Str ''user_1d'')),
        (Some (Str ''r1''), Some (Str ''user_2p''), Some (Str ''user_1d''))]"
    by (simp add: ex_state_def ex_report_def)
  have s0: "map (\<lambda>r. (r ''id'', r ''userId'', r ''targetDoctorId'')) (STORE_REPORTS ex_db)
     = [(Some (Str ''r1''), Some (Str ''user_2p''), Some (Str ''user_1d'')),
        (Some (Str ''r2''), Some (Str ''user_2p''), Some (Str ''user_1d'')),
        (Some (Str ''r3''), Some (Str ''user_2p''), Some (Str ''user_1d'')),
        (Some (Str ''r4''), Some (Str ''user_2p''), Some (Str ''user_9d''))]"
    by (simp add: ex_db_def ex_report_def)
  have up: "updateReportInDb ex_db ''r1'' [''status'' \<mapsto> Str ''reviewed'', ''doctorNotes'' \<mapsto> Str ''Looks fine'']
      = (Resolved (), ex_db\<lparr>STORE_REPORTS :=
           [(ex_report ''r1'' ''user_1d'' 100)(''status'' \<mapsto> Str ''reviewed'', ''doctorNotes'' \<mapsto> Str ''Looks fine''),
            ex_report ''r2'' ''user_1d'' 200, ex_report ''r3'' ''user_1d'' 100,
            ex_report ''r4'' ''user_9d'' 300]\<rparr>)"
    by (simp add: updateReportInDb_def openDB_def ex_db_def store_get_def store_put_def
        spread_def js_prop_def ex_report_def)
  have se: "settled ?out = Resolved ()"
    by (simp add: updateReportStatus_def up Let_def)
  have stt: "map (\<lambda>r. js_prop r ''status'') (STORE_REPORTS (db ?out))
     = [Str ''reviewed'', Str ''pending'', Str ''pending'', Str ''pending'']"
    by (simp add: updateReportStatus_db up js_prop_def ex_report_def)
  show ?thesis using wf t m0 s0 se stt by simp
qed

section \<open>The update stamp\<close>

text \<open>\<^verbatim>\<open>saveReportToDb\<close> stamps \<^verbatim>\<open>updatedAt\<close> with the time of the write.\<close>

lemma saveReportToDb_stamps:
  assumes "fst (saveReportToDb env now report) = Resolved ()"
  shows "\<exists>r. store_get ''id'' (js_prop report ''id'') (STORE_REPORTS (snd (saveReportToDb env now report)))
               = Some r \<and> r ''updatedAt'' = Some (Str now)"
  using assms
  by (auto simp: saveReportToDb_def performTransaction_def openDB_def store_put_def Let_def
      store_get_insert js_prop_def split: if_splits)

text \<open>
  C7. A report saved at 2024-06-30T10:00 is stamped with that time. A later successful
  \<^verbatim>\<open>updateReportInDb\<close> of its status and notes rewrites the record and leaves
  \<^verbatim>\<open>updatedAt\<close> at the time of the save: \<^verbatim>\<open>updateReportInDb\<close> does not read the clock.
\<close>

theorem updateReportInDb_keeps_updatedAt:
  "fst (saveReportToDb ex_db ''2024-06-30T10:00'' (ex_report ''r5'' ''user_1d'' 500)) = Resolved () \<and>
   map (\<lambda>r. (js_prop r ''id'', js_prop r ''status'', js_prop r ''updatedAt''))
       (STORE_REPORTS (snd (saveReportToDb ex_db ''2024-06-30T10:00'' (ex_report ''r5'' ''user_1d'' 500))))
     = [(Str ''r1'', Str ''pending'', Str ''2024-01-01''), (Str ''r2'', Str ''pending'', Str ''2024-01-01''),
        (Str ''r3'', Str ''pending'', Str ''2024-01-01''), (Str ''r4'', Str ''pending'', Str ''2024-01-01''),
        (Str ''r5'', Str ''pending'', Str ''2024-06-30T10:00'')] \<and>
   fst (updateReportInDb
          (snd (saveReportToDb ex_db ''2024-06-30T10:00'' (ex_report ''r5'' ''user_1d'' 500)))
          ''r5'' [''status'' \<mapsto> Str ''reviewed'', ''doctorNotes'' \<mapsto> Str ''ok'']) = Resolved () \<and>
   map (\<lambda>r. (js_prop r ''id'', js_prop r ''status'', js_prop r ''updatedAt''))
       (STORE_REPORTS (snd (updateReportInDb
          (snd (saveReportToDb ex_db ''2024-06-30T10:00'' (ex_report ''r5'' ''user_1d'' 500)))
          ''r5'' [''status'' \<mapsto> Str ''reviewed'', ''doctorNotes'' \<mapsto> Str ''ok''])))
     = [(Str ''r1'', Str ''pending'', Str ''2024-01-01''), (Str ''r2'', Str ''pending'', Str ''2024-01-01''),
        (Str ''r3'', Str ''pending'', Str ''2024-01-01''), (Str ''r4'', Str ''pending'', Str ''2024-01-01''),
        (Str ''r5'', Str ''reviewed'', Str ''2024-06-30T10:00'')]"
proof -
  have sv: "saveReportToDb ex_db ''2024-06-30T10:00'' (ex_report ''r5'' ''user_1d'' 500)
     = (Resolved (), ex_db\<lparr>STORE_REPORTS := STORE_REPORTS ex_db @
          [(ex_report ''r5'' ''user_1d'' 500)(''updatedAt'' \<mapsto> Str ''2024-06-30T10:00'')]\<rparr>)"
    by (simp add: saveReportToDb_def performTransaction_def openDB_def ex_db_def store_put_def
        js_prop_def ex_report_def)
  have up: "updateReportInDb (ex_db\<lparr>STORE_REPORTS := STORE_REPORTS ex_db @
          [(ex_report ''r5'' ''user_1d'' 500)(''updatedAt'' \<mapsto> Str ''2024-06-30T10:00'')]\<rparr>)
          ''r5'' [''status'' \<mapsto> Str ''reviewed'', ''doctorNotes'' \<mapsto> Str ''ok'']
     = (Resolved (), ex_db\<lparr>STORE_REPORTS := STORE_REPORTS ex_db @
          [(ex_report ''r5'' ''user_1d'' 500)(''updatedAt'' \<mapsto> Str ''2024-06-30T10:00'',
             ''status'' \<mapsto> Str ''reviewed'', ''doctorNotes'' \<mapsto> Str ''ok'')]\<rparr>)"
    by (simp add: updateReportInDb_def openDB_def ex_db_def store_get_def store_put_def
        spread_def js_prop_def ex_report_def)
  show ?thesis
    by (simp add: sv up) (simp add: ex_db_def ex_report_def js_prop_def)
qed

section \<open>What the read operations return\<close>

text \<open>
  C10. Whenever \<^verbatim>\<open>fetchAvailableDoctors\<close> resolves, every record of its result has exactly
  the properties \<^verbatim>\<open>uid\<close>, \<^verbatim>\<open>name\<close>, \<^verbatim>\<open>email\<close>, \<^verbatim>\<open>role\<close> and \<^verbatim>\<open>specialization\<close>; whenever
  \<^verbatim>\<open>loginUser\<close> resolves, the user object it returns has exactly its eleven profile
  properties. Neither has a \<^verbatim>\<open>password\<close> property.
\<close>

theorem password_not_returned:
  "(fetchAvailableDoctors env doctorRole = Resolved ds \<longrightarrow>
      (\<forall>d\<in>set ds. dom d = {''uid'', ''name'', ''email'', ''role'', ''specialization''} \<and>
                    ''password'' \<notin> dom d)) \<and>
   (loginUser env email pass = Resolved res \<longrightarrow>
      dom (user res) = {''uid'', ''email'', ''name'', ''role'', ''bloodGroup'', ''age'', ''dob'',
                        ''height'', ''weight'', ''phone'', ''specialization''} \<and>
      ''password'' \<notin> dom (user res))"
proof (rule conjI; rule impI)
  assume "fetchAvailableDoctors env doctorRole = Resolved ds"
  then have "ds = map (\<lambda>doc. [''uid'' \<mapsto> js_prop doc ''_id'',
                         ''name'' \<mapsto> js_prop doc ''name'',
                         ''email'' \<mapsto> js_prop doc ''email'',
                         ''role'' \<mapsto> js_prop doc ''role'',
                         ''specialization'' \<mapsto> js_prop doc ''specialization''])
                 (index_getAll ''role'' doctorRole (STORE_USERS env))"
    by (simp add: fetchAvailableDoctors_def openDB_def split: if_splits)
  then show "\<forall>d\<in>set ds. dom d = {''uid'', ''name'', ''email'', ''role'', ''specialization''} \<and>
                    ''password'' \<notin> dom d"
    by auto
next
  assume a: "loginUser env email pass = Resolved res"
  have "\<exists>u. res = \<lparr>user = [''uid'' \<mapsto> js_prop u ''_id'',
                            ''email'' \<mapsto> js_prop u ''email'',
                            ''name'' \<mapsto> js_prop u ''name'',
                            ''role'' \<mapsto> js_prop u ''role'',
                            ''bloodGroup'' \<mapsto> js_prop u ''bloodGroup'',
                            ''age'' \<mapsto> js_prop u ''age'',
                            ''dob'' \<mapsto> js_prop u ''dob'',
                            ''height'' \<mapsto> js_prop u ''height'',
                            ''weight'' \<mapsto> js_prop u ''weight'',
                            ''phone'' \<mapsto> js_prop u ''phone'',
                            ''specialization'' \<mapsto> js_prop u ''specialization''],
                    role = js_prop u ''role'', name = js_prop u ''name''\<rparr>"
  proof (cases "index_get ''email'' (Str email) (STORE_USERS env)")
    case None
    then show ?thesis using a by (simp add: loginUser_def openDB_def split: if_splits)
  next
    case (Some u)
    then show ?thesis using a
      by (intro exI [of _ u]) (simp add: loginUser_def openDB_def split: if_splits)
  qed
  then obtain u where r: "res = \<lparr>user = [''uid'' \<mapsto> js_prop u ''_id'',
                            ''email'' \<mapsto> js_prop u ''email'',
                            ''name'' \<mapsto> js_prop u ''name'',
                            ''role'' \<mapsto> js_prop u ''role'',
                            ''bloodGroup'' \<mapsto> js_prop u ''bloodGroup'',
                            ''age'' \<mapsto> js_prop u ''age'',
                            ''dob'' \<mapsto> js_prop u ''dob'',
                            ''height'' \<mapsto> js_prop u ''height'',
                            ''weight'' \<mapsto> js_prop u ''weight'',
                            ''phone'' \<mapsto> js_prop u ''phone'',
                            ''specialization'' \<mapsto> js_prop u ''specialization''],
                    role = js_prop u ''role'', name = js_prop u ''name''\<rparr>"
    by blast
  have "user res = [''uid'' \<mapsto> js_prop u ''_id'',
                            ''email'' \<mapsto> js_prop u ''email'',
                            ''name'' \<mapsto> js_prop u ''name'',
                            ''role'' \<mapsto> js_prop u ''role'',
                            ''bloodGroup'' \<mapsto> js_prop u ''bloodGroup'',
                            ''age'' \<mapsto> js_prop u ''age'',
                            ''dob'' \<mapsto> js_prop u ''dob'',
                            ''height'' \<mapsto> js_prop u ''height'',
                            ''weight'' \<mapsto> js_prop u ''weight'',
                            ''phone'' \<mapsto> js_prop u ''phone'',
                            ''specialization'' \<mapsto> js_prop u ''specialization'']"
    by (simp add: r)
  then show "dom (user res) = {''uid'', ''email'', ''name'', ''role'', ''bloodGroup'', ''age'', ''dob'',
                        ''height'', ''weight'', ''phone'', ''specialization''} \<and>
      ''password'' \<notin> dom (user res)"
    by auto
qed

text \<open>The doctor list of the sample database and a successful login of the patient, whose
  stored record does hold a password.\<close>

theorem password_not_returned_witness:
  "fetchAvailableDoctors ex_db (Str ''DOCTOR'')
     = Resolved [[''uid'' \<mapsto> Str ''user_1d'', ''name'' \<mapsto> Str ''D'', ''email'' \<mapsto> Str ''d@x.com'',
                  ''role'' \<mapsto> Str ''DOCTOR'', ''specialization'' \<mapsto> Str ''ENT'']] \<and>
   ''password'' \<notin> dom [''uid'' \<mapsto> Str ''user_1d'', ''name'' \<mapsto> Str ''D'', ''email'' \<mapsto> Str ''d@x.com'',
                         ''role'' \<mapsto> Str ''DOCTOR'', ''specialization'' \<mapsto> Str ''ENT''] \<and>
   js_prop ex_patient ''password'' = Str ''pw-p'' \<and>
   (\<exists>res. loginUser ex_db ''p@x.com'' ''pw-p'' = Resolved res \<and>
          js_prop (user res) ''uid'' = Str ''user_2p'' \<and> ''password'' \<notin> dom (user res))"
proof -
  have f: "fetchAvailableDoctors ex_db (Str ''DOCTOR'')
     = Resolved [[''uid'' \<mapsto> Str ''user_1d'', ''name'' \<mapsto> Str ''D'', ''email'' \<mapsto> Str ''d@x.com'',
                  ''role'' \<mapsto> Str ''DOCTOR'', ''specialization'' \<mapsto> Str ''ENT'']]"
    by (simp add: fetchAvailableDoctors_def openDB_def ex_db_def index_getAll_def
        ex_doctor_def ex_patient_def js_prop_def)
  have p: "js_prop ex_patient ''password'' = Str ''pw-p''"
    by (simp add: ex_patient_def js_prop_def)
  obtain res where l: "loginUser ex_db ''p@x.com'' ''pw-p'' = Resolved res"
    and uid: "js_prop (user res) ''uid'' = Str ''user_2p''"
    by (simp add: loginUser_def openDB_def ex_db_def index_get_def
        ex_doctor_def ex_patient_def js_prop_def)
  note t1 = password_not_returned [of ex_db "Str ''DOCTOR''"
      "[[''uid'' \<mapsto> Str ''user_1d'', ''name'' \<mapsto> Str ''D'', ''email'' \<mapsto> Str ''d@x.com'',
         ''role'' \<mapsto> Str ''DOCTOR'', ''specialization'' \<mapsto> Str ''ENT'']]" "''p@x.com''" "''pw-p''" res]
  have d: "\<forall>d\<in>set [[''uid'' \<mapsto> Str ''user_1d'', ''name'' \<mapsto> Str ''D'', ''email'' \<mapsto> Str ''d@x.com'',
                  ''role'' \<mapsto> Str ''DOCTOR'', ''specialization'' \<mapsto> Str ''ENT'']].
       ''password'' \<notin> dom d"
    using t1 [THEN conjunct1] f by blast
  have n: "''password'' \<notin> dom (user res)"
    using t1 [THEN conjunct2] l by blast
  have d': "''password'' \<notin> dom [''uid'' \<mapsto> Str ''user_1d'', ''name'' \<mapsto> Str ''D'',
      ''email'' \<mapsto> Str ''d@x.com'', ''role'' \<mapsto> Str ''DOCTOR'', ''specialization'' \<mapsto> Str ''ENT'']"
    using d by simp
  show ?thesis using f d' p l uid n by blast
qed

section \<open>The database invariant is kept by every write\<close>

text \<open>
  The hypotheses on the stores used above (ascending valid keys, distinct email keys) hold
  of the empty database and are kept by every service that writes, so they hold of every
  database the application can reach.
\<close>

lemma wf_store_keys_differ:
  assumes "wf_store kp (r # rs)" and "x \<in> set rs"
  shows "js_prop x kp \<noteq> js_prop r kp"
proof
  assume "js_prop x kp = js_prop r kp"
  moreover have "key_less (js_prop r kp) (js_prop x kp)"
    using assms by (auto simp: wf_store_def)
  ultimately show False using key_less_irrefl by simp
qed

lemma unique_index_insert:
  assumes "wf_store kp rs" and "unique_index ix rs" and "\<not> unique_conflict kp ix v rs"
  shows "unique_index ix (store_insert kp v rs)"
  using assms
proof (induction rs)
  case Nil
  then show ?case by (simp add: unique_index_def)
next
  case (Cons r rs)
  have tlwf: "wf_store kp rs" using Cons.prems(1) by (simp add: wf_store_def)
  have tlu: "unique_index ix rs" using Cons.prems(2) by (simp add: unique_index_def split: if_splits)
  have free: "valid_key (js_prop v ix) \<Longrightarrow> x \<in> set (r # rs) \<Longrightarrow> js_prop x kp \<noteq> js_prop v kp
                \<Longrightarrow> js_prop x ix \<noteq> js_prop v ix" for x
    using Cons.prems(3) by (auto simp: unique_conflict_def list_ex_iff)
  show ?case
  proof (cases "js_prop v kp = js_prop r kp")
    case True
    have "valid_key (js_prop v ix) \<Longrightarrow> js_prop v ix \<notin> set (map (\<lambda>x. js_prop x ix) rs)"
    proof
      assume vv: "valid_key (js_prop v ix)" and "js_prop v ix \<in> set (map (\<lambda>x. js_prop x ix) rs)"
      then have "js_prop v ix \<in> (\<lambda>x. js_prop x ix) ` set rs" by (simp only: set_map)
      then obtain x where x': "js_prop v ix = js_prop x ix" "x \<in> set rs" by (rule imageE)
      then have x: "x \<in> set rs" "js_prop x ix = js_prop v ix" by simp_all
      then have "js_prop x kp \<noteq> js_prop v kp"
        using wf_store_keys_differ [OF Cons.prems(1)] True by simp
      then show False using free [OF vv, of x] x by simp
    qed
    then show ?thesis using True tlu by (simp add: unique_index_def)
  next
    case False
    show ?thesis
    proof (cases "key_less (js_prop v kp) (js_prop r kp)")
      case True
      have below: "\<forall>x\<in>set rs. key_less (js_prop r kp) (js_prop x kp)"
        using Cons.prems(1) by (simp add: wf_store_def)
      have "valid_key (js_prop v ix) \<Longrightarrow> js_prop v ix \<notin> set (map (\<lambda>x. js_prop x ix) (r # rs))"
      proof
        assume vv: "valid_key (js_prop v ix)"
          and "js_prop v ix \<in> set (map (\<lambda>x. js_prop x ix) (r # rs))"
        then have "js_prop v ix \<in> (\<lambda>x. js_prop x ix) ` set (r # rs)" by (simp only: set_map)
        then obtain x where x': "js_prop v ix = js_prop x ix" "x \<in> set (r # rs)" by (rule imageE)
        then have x: "x \<in> set (r # rs)" "js_prop x ix = js_prop v ix" by simp_all
        have "key_less (js_prop v kp) (js_prop x kp)"
          using x(1) True below key_less_trans by auto
        then have "js_prop x kp \<noteq> js_prop v kp" using key_less_irrefl by auto
        then show False using free [OF vv x(1)] x(2) by simp
      qed
      then show ?thesis using False True Cons.prems(2) by (simp add: unique_index_def)
    next
      case nless: False
      have nc: "\<not> unique_conflict kp ix v rs"
        using Cons.prems(3) by (auto simp: unique_conflict_def)
      have ih: "unique_index ix (store_insert kp v rs)"
        using Cons.IH [OF tlwf tlu nc] .
      have "valid_key (js_prop r ix) \<Longrightarrow>
              js_prop r ix \<notin> set (map (\<lambda>x. js_prop x ix) (store_insert kp v rs))"
      proof
        assume rv: "valid_key (js_prop r ix)"
          and "js_prop r ix \<in> set (map (\<lambda>x. js_prop x ix) (store_insert kp v rs))"
        then have "js_prop r ix \<in> (\<lambda>x. js_prop x ix) ` set (store_insert kp v rs)"
          by (simp only: set_map)
        then obtain x where x': "js_prop r ix = js_prop x ix" "x \<in> set (store_insert kp v rs)"
          by (rule imageE)
        then have x: "x \<in> set (store_insert kp v rs)" "js_prop x ix = js_prop r ix"
          by simp_all
        then consider "x = v" | "x \<in> set rs" using set_store_insert [of kp v rs] by auto
        then show False
        proof cases
          case 1
          then have "valid_key (js_prop v ix)" using rv x(2) by simp
          then have "js_prop r ix \<noteq> js_prop v ix"
            using free [of r] False by auto
          then show False using 1 x(2) by simp
        next
          case 2
          then have "js_prop x ix \<in> (\<lambda>x. js_prop x ix) ` set rs" by (rule imageI)
          then have "js_prop r ix \<in> (\<lambda>x. js_prop x ix) ` set rs" unfolding x(2) .
          then have "js_prop r ix \<in> set (filter valid_key (map (\<lambda>x. js_prop x ix) rs))"
            using rv by simp
          then show False using Cons.prems(2) rv by (simp add: unique_index_def)
        qed
      qed
      then show ?thesis using False nless ih by (simp add: unique_index_def)
    qed
  qed
qed

lemma wf_idb_updateReportInDb:
  "wf_idb env \<Longrightarrow> wf_idb (snd (updateReportInDb env reportId updates))"
  using updateReportInDb_cases [of env reportId updates]
  by (auto simp: wf_idb_def wf_store_insert)

lemma wf_idb_saveReportToDb:
  "wf_idb env \<Longrightarrow> wf_idb (snd (saveReportToDb env now report))"
  by (auto simp: saveReportToDb_def performTransaction_def openDB_def store_put_def Let_def
      wf_idb_def wf_store_insert)

lemma wf_idb_updateUserInDb:
  "wf_idb env \<Longrightarrow> wf_idb (snd (updateUserInDb env uid updates))"
  by (auto simp: updateUserInDb_def openDB_def store_put_def Let_def wf_idb_def
      wf_store_insert unique_index_insert split: option.splits)

lemma wf_idb_registerUser:
  "wf_idb env \<Longrightarrow>
     wf_idb (snd (registerUser env date_now rand created email pass nm rl specialization))"
  by (auto simp: registerUser_def performTransaction_def openDB_def store_add_def Let_def
      wf_idb_def wf_store_insert unique_index_insert split: option.splits)

lemma wf_idb_updateReportStatus:
  "wf_idb env \<Longrightarrow> wf_idb (db (updateReportStatus env st ident status notes))"
  by (simp add: updateReportStatus_db wf_idb_updateReportInDb)

lemma wf_idb_empty: "wf_idb \<lparr>fault = f, STORE_USERS = [], STORE_REPORTS = []\<rparr>"
  by (simp add: wf_idb_def wf_store_def unique_index_def)

lemma wf_idb_ex_db: "wf_idb ex_db"
  by (simp add: wf_idb_def wf_store_def unique_index_def ex_db_def ex_doctor_def ex_patient_def
      ex_report_def js_prop_def)

end
